theory Spec2Isabelle
  imports Complex_Main
begin

section \<open>Python values used by the segment pipeline\<close>

text \<open>
  Python strings are lists of characters and Python's unbounded integers are \<open>int\<close>.
  A finite Python float (an IEEE 754 binary64 number) is the real number it denotes;
  the result of a float operation is rounded to the nearest float by \<open>fl\<close> below.
  Infinities and NaN are not represented.
  An exception is a value of \<open>error\<close>; a function that can raise returns
  \<open>error + 'a\<close> with \<open>Inl\<close> for the exception.
\<close>

datatype error =
    ValueError string
  | FileNotFoundError string
  | AttributeError string
  | KeyError string
  | TypeError string
  | OverflowError string
  | Exception string

text \<open>
  \<open>str(e)\<close> of an exception built from one message; a \<open>KeyError\<close> carries the
  \<open>repr\<close> of its key.
\<close>

fun err_str :: "error \<Rightarrow> string" where
  "err_str (ValueError m) = m"
| "err_str (FileNotFoundError m) = m"
| "err_str (AttributeError m) = m"
| "err_str (KeyError m) = m"
| "err_str (TypeError m) = m"
| "err_str (OverflowError m) = m"
| "err_str (Exception m) = m"

text \<open>\<open>str.isspace\<close> on one character with a code point below 256.\<close>

definition is_space :: "char \<Rightarrow> bool" where
  "is_space c = (c \<in> set [CHR 0x09, CHR 0x0A, CHR 0x0B, CHR 0x0C, CHR 0x0D,
                           CHR 0x1C, CHR 0x1D, CHR 0x1E, CHR 0x1F, CHR 0x20,
                           CHR 0x85, CHR 0xA0])"

text \<open>\<open>s.strip()\<close>: leading and trailing whitespace removed.\<close>

definition strip :: "string \<Rightarrow> string" where
  "strip s = rev (dropWhile is_space (rev (dropWhile is_space s)))"

text \<open>\<open>s.split()\<close>: the maximal runs of non-whitespace characters, in order.\<close>

fun split_ws :: "string \<Rightarrow> string \<Rightarrow> string list" where
  "split_ws w [] = (if w = [] then [] else [w])"
| "split_ws w (c # cs) =
     (if is_space c then (if w = [] then split_ws [] cs else w # split_ws [] cs)
      else split_ws (w @ [c]) cs)"

definition split :: "string \<Rightarrow> string list" where
  "split s = split_ws [] s"

text \<open>\<open>sep.join(xs)\<close>.\<close>

fun join :: "string \<Rightarrow> string list \<Rightarrow> string" where
  "join sep [] = []"
| "join sep [x] = x"
| "join sep (x # y # ys) = x @ sep @ join sep (y # ys)"

text \<open>\<open>str(n)\<close> for a non-negative integer: its decimal digits.\<close>

definition digit_char :: "nat \<Rightarrow> char" where
  "digit_char d = ''0123456789'' ! d"

fun digits :: "nat \<Rightarrow> string" where
  "digits n = (if n < 10 then [digit_char n] else digits (n div 10) @ [digit_char (n mod 10)])"

declare digits.simps [simp del]

text \<open>\<open>x or d\<close> for an optional string: \<open>None\<close> and the empty string are both falsy.\<close>

definition py_or :: "string option \<Rightarrow> string \<Rightarrow> string" where
  "py_or x d = (case x of None \<Rightarrow> d | Some s \<Rightarrow> if s = [] then d else s)"

section \<open>Binary floating point\<close>

text \<open>Rounding to the nearest integer, a half to the even neighbour.\<close>

definition round_half_even :: "real \<Rightarrow> int" where
  "round_half_even x =
     (let f = \<lfloor>x\<rfloor>; d = x - of_int f in
      if d < 1 / 2 then f else if 1 / 2 < d then f + 1 else if even f then f else f + 1)"

text \<open>The number of binary digits of a natural number.\<close>

fun bits :: "nat \<Rightarrow> nat" where
  "bits n = (if n = 0 then 0 else Suc (bits (n div 2)))"

declare bits.simps [simp del]

text \<open>
  The distance between neighbouring floats around a positive real \<open>x\<close>: with
  \<open>2 ^ e \<le> x < 2 ^ (e + 1)\<close> it is \<open>2 ^ (e - 52)\<close> (53 significant bits), and
  \<open>2 ^ - 1074\<close> in the subnormal range.
\<close>

definition ulp :: "real \<Rightarrow> real" where
  "ulp x =
     (if 1 \<le> x then 2 ^ (bits (nat \<lfloor>x\<rfloor>) - 1) / 2 ^ 52
      else 1 / 2 ^ min (bits (nat (\<lceil>1 / x\<rceil> - 1)) + 52) 1074)"

text \<open>
  The float nearest to a real number, a tie going to the even significand (the default
  rounding of every float operation). Overflow to infinity is not represented: the
  magnitudes of this program stay far below the largest float.
\<close>

definition fl :: "real \<Rightarrow> real" where
  "fl x =
     (if x = 0 then 0
      else if 0 < x then of_int (round_half_even (x / ulp x)) * ulp x
      else - (of_int (round_half_even (- x / ulp (- x))) * ulp (- x)))"

text \<open>The reals that are floats.\<close>

definition is_float :: "real \<Rightarrow> bool" where
  "is_float x = (fl x = x)"

section \<open>Segment model, settings and external services\<close>

text \<open>
  A segment is the dictionary with the keys \<open>start\<close>, \<open>end\<close>, \<open>text\<close> and, after
  translation, \<open>translated_text\<close>. The first three keys are always present in the
  model; a dictionary that lacks one of them is not represented.
\<close>

record segment =
  start :: real
  "end" :: real
  "text" :: string
  translated_text :: "string option"

text \<open>The fields of \<open>Settings\<close> (\<open>config.py\<close>) that the pipeline reads.\<close>

record settings =
  SUPPORTED_LANGUAGES :: "string list"
  DEFAULT_LLM_PROVIDER :: string
  OPENAI_API_KEY :: string
  GEMINI_API_KEY :: string

text \<open>The verbose JSON answer of the OpenAI transcription endpoint: \<open>segments\<close> may be absent.\<close>

record whisper_response =
  segments :: "segment list option"
  response_text :: string

text \<open>
  The services outside the repository, as functions from the request to its answer or
  the exception it raises: the two chat endpoints (prompt to message content), the two
  transcription endpoints, \<open>json.loads\<close> on Gemini's answer and
  \<open>file_handler.file_exists\<close>.
\<close>

record world =
  openai_chat :: "string \<Rightarrow> error + string option"
  gemini_generate :: "string \<Rightarrow> error + string option"
  openai_transcriptions :: "string \<Rightarrow> string \<Rightarrow> error + whisper_response"
  gemini_audio :: "string \<Rightarrow> string \<Rightarrow> error + string"
  json_loads :: "string \<Rightarrow> error + segment list"
  file_exists :: "string \<Rightarrow> bool"

text \<open>
  Every invocation of a provider backend of \<open>LLMClient\<close> (\<open>_translate_with_openai\<close>,
  \<open>_translate_with_gemini\<close>, \<open>_transcribe_with_openai\<close>, \<open>_transcribe_with_gemini\<close>)
  is logged with the provider, the text or audio path it was given, and its outcome. A
  function of the pipeline returns its result together with the log of the backend
  invocations it made, in call order.
\<close>

datatype backend_call =
    Translate_call string string "error + string"
  | Transcribe_call string string "error + segment list"

type_synonym 'a traced = "(error + 'a) \<times> backend_call list"

section \<open>Provider gateway (\<open>llm_client.py\<close>)\<close>

definition translation_prompt :: "string \<Rightarrow> string \<Rightarrow> string \<Rightarrow> string \<Rightarrow> string" where
  "translation_prompt context source_language target_language txt =
     ''You are a professional translator.\<newline>\<newline>Context about the full content: '' @ context @
     ''\<newline>\<newline>Translate the following text from '' @ source_language @ '' to '' @ target_language @
     ''.\<newline>Maintain professional tone, cultural nuances, and technical accuracy.\<newline>'' @
     ''Only return the translated text, no explanations.\<newline>\<newline>Text to translate:\<newline>'' @
     [CHR 0x22] @ txt @ [CHR 0x22] @ ''\<newline>\<newline>Translation:''"

text \<open>\<open>content.strip()\<close> where \<open>content\<close> may be \<open>None\<close>.\<close>

definition strip_content :: "string option \<Rightarrow> error + string" where
  "strip_content c =
     (case c of
        None \<Rightarrow> Inl (AttributeError
                 ([CHR 0x27] @ ''NoneType' object has no attribute 'strip'' @ [CHR 0x27]))
      | Some s \<Rightarrow> Inr (strip s))"

definition translate_with_openai ::
  "world \<Rightarrow> settings \<Rightarrow> string \<Rightarrow> string \<Rightarrow> string \<Rightarrow> string \<Rightarrow> error + string" where
  "translate_with_openai W S txt source_language target_language context =
     (if OPENAI_API_KEY S = [] then Inl (ValueError ''OpenAI API key not configured'')
      else
        (case openai_chat W (translation_prompt context source_language target_language txt) of
           Inl e \<Rightarrow> Inl (Exception (''OpenAI translation failed: '' @ err_str e))
         | Inr c \<Rightarrow>
             (case strip_content c of
                Inl e \<Rightarrow> Inl (Exception (''OpenAI translation failed: '' @ err_str e))
              | Inr t \<Rightarrow> Inr t)))"

definition translate_with_gemini ::
  "world \<Rightarrow> settings \<Rightarrow> string \<Rightarrow> string \<Rightarrow> string \<Rightarrow> string \<Rightarrow> error + string" where
  "translate_with_gemini W S txt source_language target_language context =
     (if GEMINI_API_KEY S = [] then Inl (ValueError ''Gemini API key not configured'')
      else
        (case gemini_generate W (translation_prompt context source_language target_language txt) of
           Inl e \<Rightarrow> Inl (Exception (''Gemini translation failed: '' @ err_str e))
         | Inr c \<Rightarrow>
             (case strip_content c of
                Inl e \<Rightarrow> Inl (Exception (''Gemini translation failed: '' @ err_str e))
              | Inr t \<Rightarrow> Inr t)))"

definition translate_with_context ::
  "world \<Rightarrow> settings \<Rightarrow> string \<Rightarrow> string \<Rightarrow> string \<Rightarrow> string \<Rightarrow> string option \<Rightarrow> string traced" where
  "translate_with_context W S txt source_language target_language context provider =
     (let p = py_or provider (DEFAULT_LLM_PROVIDER S) in
      if p = ''openai'' then
        (let r = translate_with_openai W S txt source_language target_language context
         in (r, [Translate_call p txt r]))
      else if p = ''gemini'' then
        (let r = translate_with_gemini W S txt source_language target_language context
         in (r, [Translate_call p txt r]))
      else (Inl (ValueError (''Unknown provider: '' @ p)), []))"

definition transcription_prompt :: "string \<Rightarrow> string" where
  "transcription_prompt language =
     ''Transcribe this audio file in '' @ language @ '' language.\<newline>'' @
     ''            Provide the transcription with timestamps in this JSON format:\<newline>'' @
     ''            [{'' @ [CHR 0x22] @ ''start'' @ [CHR 0x22] @ '': 0.0, '' @
     [CHR 0x22] @ ''end'' @ [CHR 0x22] @ '': 2.5, '' @
     [CHR 0x22] @ ''text'' @ [CHR 0x22] @ '': '' @
     [CHR 0x22] @ ''transcribed text'' @ [CHR 0x22] @ ''}, ...]\<newline>\<newline>'' @
     ''            Only return the JSON array, no additional text.''"

text \<open>
  \<open>_transcribe_with_openai\<close>: a response with a non-empty \<open>segments\<close> list is copied
  segment by segment (text stripped); otherwise one segment from 0.0 to 0.0 carries
  \<open>response.text\<close>.
\<close>

definition transcribe_with_openai ::
  "world \<Rightarrow> settings \<Rightarrow> string \<Rightarrow> string \<Rightarrow> error + segment list" where
  "transcribe_with_openai W S audio_file_path language =
     (if OPENAI_API_KEY S = [] then Inl (ValueError ''OpenAI API key not configured'')
      else
        (case openai_transcriptions W audio_file_path language of
           Inl e \<Rightarrow> Inl (Exception (''OpenAI transcription failed: '' @ err_str e))
         | Inr response \<Rightarrow>
             (case segments response of
                Some (x # xs) \<Rightarrow>
                  Inr (map (\<lambda>seg. \<lparr>start = start seg, end = end seg,
                                   text = strip (text seg), translated_text = None\<rparr>) (x # xs))
              | _ \<Rightarrow>
                  Inr [\<lparr>start = 0, end = 0, text = response_text response,
                        translated_text = None\<rparr>])))"

text \<open>\<open>_transcribe_with_gemini\<close>: the answer is parsed with \<open>json.loads\<close> and returned as it is.\<close>

definition transcribe_with_gemini ::
  "world \<Rightarrow> settings \<Rightarrow> string \<Rightarrow> string \<Rightarrow> error + segment list" where
  "transcribe_with_gemini W S audio_file_path language =
     (if GEMINI_API_KEY S = [] then Inl (ValueError ''Gemini API key not configured'')
      else
        (case gemini_audio W audio_file_path (transcription_prompt language) of
           Inl e \<Rightarrow> Inl (Exception (''Gemini transcription failed: '' @ err_str e))
         | Inr answer \<Rightarrow>
             (case json_loads W answer of
                Inl e \<Rightarrow> Inl (Exception (''Gemini transcription failed: '' @ err_str e))
              | Inr segs \<Rightarrow> Inr segs)))"

definition LLMClient_transcribe_audio ::
  "world \<Rightarrow> settings \<Rightarrow> string \<Rightarrow> string \<Rightarrow> string option \<Rightarrow> segment list traced" where
  "LLMClient_transcribe_audio W S audio_file_path language provider =
     (let p = py_or provider (DEFAULT_LLM_PROVIDER S) in
      if p = ''openai'' then
        (let r = transcribe_with_openai W S audio_file_path language
         in (r, [Transcribe_call p audio_file_path r]))
      else if p = ''gemini'' then
        (let r = transcribe_with_gemini W S audio_file_path language
         in (r, [Transcribe_call p audio_file_path r]))
      else (Inl (ValueError (''Unknown provider: '' @ p)), []))"

section \<open>Transcriber (\<open>transcriber.py\<close>)\<close>

definition Transcriber_transcribe_audio ::
  "world \<Rightarrow> settings \<Rightarrow> string \<Rightarrow> string \<Rightarrow> string option \<Rightarrow> segment list traced" where
  "Transcriber_transcribe_audio W S audio_path language provider =
     (if \<not> file_exists W audio_path then
        (Inl (FileNotFoundError (''Audio file not found: '' @ audio_path)), [])
      else if language \<notin> set (SUPPORTED_LANGUAGES S) then
        (Inl (ValueError (''Language '' @ [CHR 0x27] @ language @ [CHR 0x27] @
                          '' is not supported. Supported languages: '' @
                          join '', '' (SUPPORTED_LANGUAGES S))), [])
      else LLMClient_transcribe_audio W S audio_path language provider)"

section \<open>Translator (\<open>translator.py\<close>)\<close>

definition translate_segment ::
  "world \<Rightarrow> settings \<Rightarrow> string \<Rightarrow> string \<Rightarrow> string \<Rightarrow> string \<Rightarrow> string option \<Rightarrow> string traced" where
  "translate_segment W S txt source_language target_language context provider =
     (if source_language \<notin> set (SUPPORTED_LANGUAGES S) then
        (Inl (ValueError (''Source language '' @ [CHR 0x27] @ source_language @ [CHR 0x27] @
                          '' is not supported. Supported languages: '' @
                          join '', '' (SUPPORTED_LANGUAGES S))), [])
      else if target_language \<notin> set (SUPPORTED_LANGUAGES S) then
        (Inl (ValueError (''Target language '' @ [CHR 0x27] @ target_language @ [CHR 0x27] @
                          '' is not supported. Supported languages: '' @
                          join '', '' (SUPPORTED_LANGUAGES S))), [])
      else translate_with_context W S txt source_language target_language context provider)"

text \<open>
  The loop of \<open>translate_segments\<close>: \<open>acc\<close> is \<open>translated_segments\<close>; an exception of
  \<open>translate_segment\<close> leaves the loop at once.
\<close>

fun translate_loop ::
  "world \<Rightarrow> settings \<Rightarrow> string \<Rightarrow> string \<Rightarrow> string \<Rightarrow> string option \<Rightarrow>
   segment list \<Rightarrow> segment list \<Rightarrow> segment list traced" where
  "translate_loop W S source_language target_language context provider acc [] = (Inr acc, [])"
| "translate_loop W S source_language target_language context provider acc (sg # rest) =
     (case translate_segment W S (text sg) source_language target_language context provider of
        (Inl e, cs) \<Rightarrow> (Inl e, cs)
      | (Inr translated, cs) \<Rightarrow>
          (case translate_loop W S source_language target_language context provider
                  (acc @ [\<lparr>start = start sg, end = end sg, text = text sg,
                           translated_text = Some translated\<rparr>]) rest of
             (r, cs') \<Rightarrow> (r, cs @ cs')))"

definition translate_segments ::
  "world \<Rightarrow> settings \<Rightarrow> segment list \<Rightarrow> string \<Rightarrow> string \<Rightarrow> string \<Rightarrow> string option \<Rightarrow>
   segment list traced" where
  "translate_segments W S segs source_language target_language context provider =
     (if segs = [] then (Inl (ValueError ''Cannot translate empty segments''), [])
      else translate_loop W S source_language target_language context provider [] segs)"

section \<open>Context builder (\<open>context_builder.py\<close>)\<close>

definition full_text :: "segment list \<Rightarrow> string" where
  "full_text segs = join '' '' (map text segs)"

definition context_prompt :: "string \<Rightarrow> string \<Rightarrow> string" where
  "context_prompt source_language ft =
     ''Analyze the following transcript in '' @ source_language @
     '' language and provide a brief context summary (2-3 sentences maximum).\<newline>\<newline>'' @
     ''Include:\<newline>1. The main topic or theme\<newline>'' @
     ''2. The tone (e.g., formal, casual, technical, educational)\<newline>'' @
     ''3. Any key technical terms, proper nouns, or domain-specific vocabulary\<newline>\<newline>'' @
     ''Keep it concise and focused on information that would help a translator maintain '' @
     ''accuracy and consistency.\<newline>\<newline>Transcript:\<newline>'' @
     [CHR 0x22] @ take 2000 ft @ [CHR 0x22] @ ''\<newline>\<newline>Context Summary:''"

text \<open>The body of the \<open>try\<close> block of \<open>_generate_context_with_llm\<close>.\<close>

definition context_try ::
  "world \<Rightarrow> settings \<Rightarrow> string \<Rightarrow> string \<Rightarrow> string \<Rightarrow> string traced" where
  "context_try W S p prompt source_language =
     (if p = ''openai'' then
        (let r = translate_with_openai W S prompt source_language ''en'' []
         in (case r of Inl e \<Rightarrow> Inl e | Inr c \<Rightarrow> Inr (strip c), [Translate_call p prompt r]))
      else if p = ''gemini'' then
        (let r = translate_with_gemini W S prompt source_language ''en'' []
         in (case r of Inl e \<Rightarrow> Inl e | Inr c \<Rightarrow> Inr (strip c), [Translate_call p prompt r]))
      else (Inl (ValueError (''Unknown provider: '' @ p)), []))"

text \<open>The string the \<open>except Exception\<close> handler returns.\<close>

definition fallback_context :: "string \<Rightarrow> string \<Rightarrow> string" where
  "fallback_context source_language ft =
     ''Content in '' @ source_language @ '' language. Length: approximately '' @
     digits (length (split ft)) @ '' words.''"

definition generate_context_with_llm ::
  "world \<Rightarrow> settings \<Rightarrow> string \<Rightarrow> string \<Rightarrow> string option \<Rightarrow> string traced" where
  "generate_context_with_llm W S ft source_language provider =
     (let p = py_or provider (DEFAULT_LLM_PROVIDER S) in
      case context_try W S p (context_prompt source_language ft) source_language of
        (Inl e, cs) \<Rightarrow> (Inr (fallback_context source_language ft), cs)
      | (Inr c, cs) \<Rightarrow> (Inr c, cs))"

definition build_context ::
  "world \<Rightarrow> settings \<Rightarrow> segment list \<Rightarrow> string \<Rightarrow> string option \<Rightarrow> string traced" where
  "build_context W S segs source_language provider =
     (if segs = [] then (Inl (ValueError ''Cannot build context from empty segments''), [])
      else
        (let ft = full_text segs in
         if length (strip ft) < 10 then
           (Inr ''Short video content without specific context.'', [])
         else generate_context_with_llm W S ft source_language provider))"

section \<open>Concrete settings and services for the examples\<close>

definition example_settings :: settings where
  "example_settings =
     \<lparr>SUPPORTED_LANGUAGES = [''en'', ''zh'', ''hi'', ''es'', ''ar'', ''fr'', ''bn'', ''pt'', ''ru'', ''ur'',
                              ''id'', ''de'', ''ja'', ''mr'', ''te'', ''tr'', ''ta'', ''vi'', ''ko'', ''sw''],
      DEFAULT_LLM_PROVIDER = ''gemini'',
      OPENAI_API_KEY = ''key-1'',
      GEMINI_API_KEY = ''key-2''\<rparr>"

text \<open>Services that answer: every chat returns \<open>Hola\<close>, Gemini's transcription is not JSON.\<close>

definition answering_world :: world where
  "answering_world =
     \<lparr>openai_chat = (\<lambda>prompt. Inr (Some ''Hola'')),
      gemini_generate = (\<lambda>prompt. Inr (Some ''Hola'')),
      openai_transcriptions =
        (\<lambda>path language. Inr \<lparr>segments = None, response_text = ''hello there''\<rparr>),
      gemini_audio = (\<lambda>path prompt. Inr ''I cannot transcribe this.''),
      json_loads = (\<lambda>s. Inl (ValueError ''Expecting value: line 1 column 1 (char 0)'')),
      file_exists = (\<lambda>path. True)\<rparr>"

text \<open>Services whose every request raises.\<close>

definition failing_world :: world where
  "failing_world =
     \<lparr>openai_chat = (\<lambda>prompt. Inl (Exception ''Connection error.'')),
      gemini_generate = (\<lambda>prompt. Inl (Exception ''Connection error.'')),
      openai_transcriptions = (\<lambda>path language. Inl (Exception ''Connection error.'')),
      gemini_audio = (\<lambda>path prompt. Inl (Exception ''Connection error.'')),
      json_loads = (\<lambda>s. Inl (ValueError ''Expecting value: line 1 column 1 (char 0)'')),
      file_exists = (\<lambda>path. True)\<rparr>"

definition seg :: "real \<Rightarrow> real \<Rightarrow> string \<Rightarrow> segment" where
  "seg a b t = \<lparr>start = a, end = b, text = t, translated_text = None\<rparr>"

section \<open>SRT timestamps (\<open>srt_generator.py\<close>)\<close>

text \<open>
  \<open>int(x)\<close> truncates towards zero. C's \<open>fmod\<close> is exact and has the sign of its
  first argument. Python's \<open>x % y\<close> and \<open>x // y\<close> on floats (\<open>float_rem\<close> and
  \<open>_float_div_mod\<close> of CPython, for \<open>y \<noteq> 0\<close>) are computed from it with float
  operations.
\<close>

definition py_int :: "real \<Rightarrow> int" where
  "py_int x = (if 0 \<le> x then \<lfloor>x\<rfloor> else \<lceil>x\<rceil>)"

definition fmod :: "real \<Rightarrow> real \<Rightarrow> real" where
  "fmod x y = x - y * of_int (py_int (x / y))"

definition py_mod :: "real \<Rightarrow> real \<Rightarrow> real" where
  "py_mod vx wx =
     (let m = fmod vx wx in
      if m \<noteq> 0 \<and> (wx < 0) \<noteq> (m < 0) then fl (m + wx) else m)"

definition py_floordiv :: "real \<Rightarrow> real \<Rightarrow> real" where
  "py_floordiv vx wx =
     (let m = fmod vx wx;
          d = fl (fl (vx - m) / wx);
          d = (if m \<noteq> 0 \<and> (wx < 0) \<noteq> (m < 0) then fl (d - 1) else d)
      in if d \<noteq> 0 then
           (let f = of_int \<lfloor>d\<rfloor> in if 1 / 2 < fl (d - f) then fl (f + 1) else f)
         else 0)"

text \<open>The format specification \<open>0wd\<close>: sign-aware zero padding to at least \<open>w\<close> characters.\<close>

definition zero_pad :: "nat \<Rightarrow> string \<Rightarrow> string" where
  "zero_pad w s = replicate (w - length s) (CHR ''0'') @ s"

definition format_d :: "nat \<Rightarrow> int \<Rightarrow> string" where
  "format_d w n =
     (if n < 0 then ''-'' @ zero_pad (w - 1) (digits (nat (- n)))
      else zero_pad w (digits (nat n)))"

definition format_timestamp :: "real \<Rightarrow> string" where
  "format_timestamp seconds =
     (let hours = py_int (py_floordiv seconds 3600);
          minutes = py_int (py_floordiv (py_mod seconds 3600) 60);
          secs = py_int (py_mod seconds 60);
          milliseconds = py_int (fl (py_mod seconds 1 * 1000))
      in format_d 2 hours @ '':'' @ format_d 2 minutes @ '':'' @ format_d 2 secs @ '','' @
         format_d 3 milliseconds)"

text \<open>
  The timestamp as the specification words it, on the real number: \<open>spec_mod\<close> is
  the mathematical \<open>x mod y\<close>, and the milliseconds are rounded to the nearest integer
  (a half is rounded up here; no example below is at a half). It is kept apart from
  \<open>format_timestamp\<close> to compare the two.
\<close>

definition spec_mod :: "real \<Rightarrow> real \<Rightarrow> real" where
  "spec_mod x y = x - y * of_int \<lfloor>x / y\<rfloor>"

definition spec_format_timestamp :: "real \<Rightarrow> string" where
  "spec_format_timestamp seconds =
     (let hours = \<lfloor>seconds / 3600\<rfloor>;
          minutes = \<lfloor>spec_mod seconds 3600 / 60\<rfloor>;
          secs = \<lfloor>spec_mod seconds 60\<rfloor>;
          millis = round (spec_mod seconds 1 * 1000)
      in format_d 2 hours @ '':'' @ format_d 2 minutes @ '':'' @ format_d 2 secs @ '','' @
         format_d 3 millis)"

section \<open>CSV transcript (\<open>transcriber.py\<close>)\<close>

text \<open>
  The \<open>csv\<close> module of Python's standard library with its default dialect (delimiter
  comma, quote character \<open>"\<close> doubled inside a quoted field, line terminator CR LF,
  minimal quoting). The writer quotes a field that holds the delimiter, the quote
  character, a carriage return or a line feed.
\<close>

definition needs_quote :: "string \<Rightarrow> bool" where
  "needs_quote f = list_ex (\<lambda>c. c = CHR '','' \<or> c = CHR 0x22 \<or> c = CHR 0x0D \<or> c = CHR 0x0A) f"

definition double_quotes :: "string \<Rightarrow> string" where
  "double_quotes f = concat (map (\<lambda>c. if c = CHR 0x22 then [CHR 0x22, CHR 0x22] else [c]) f)"

definition csv_field :: "string \<Rightarrow> string" where
  "csv_field f = (if needs_quote f then [CHR 0x22] @ double_quotes f @ [CHR 0x22] else f)"

definition csv_writerow :: "string list \<Rightarrow> string" where
  "csv_writerow fs =
     (if fs = [[]] then [CHR 0x22, CHR 0x22] else join '','' (map csv_field fs)) @
     [CHR 0x0D, CHR 0x0A]"

text \<open>
  The reader's automaton (\<open>Reader.parse_process_char\<close>, no escape character, not strict):
  \<open>None\<close> is the end-of-line marker the reader processes after the characters of
  each line.
\<close>

datatype csv_state =
  START_RECORD | START_FIELD | IN_FIELD | IN_QUOTED_FIELD | QUOTE_IN_QUOTED_FIELD | EAT_CRNL

record reader =
  state :: csv_state
  cur_field :: string
  cur_fields :: "string list"

definition reader_reset :: reader where
  "reader_reset = \<lparr>state = START_RECORD, cur_field = [], cur_fields = []\<rparr>"

definition save_field :: "reader \<Rightarrow> reader" where
  "save_field r = r\<lparr>cur_fields := cur_fields r @ [cur_field r], cur_field := []\<rparr>"

definition add_char :: "reader \<Rightarrow> char \<Rightarrow> reader" where
  "add_char r c = r\<lparr>cur_field := cur_field r @ [c]\<rparr>"

definition is_newline :: "char \<Rightarrow> bool" where
  "is_newline c = (c = CHR 0x0A \<or> c = CHR 0x0D)"

definition start_field :: "reader \<Rightarrow> char option \<Rightarrow> error + reader" where
  "start_field r c =
     (case c of
        None \<Rightarrow> Inr ((save_field r)\<lparr>state := START_RECORD\<rparr>)
      | Some ch \<Rightarrow>
          if is_newline ch then Inr ((save_field r)\<lparr>state := EAT_CRNL\<rparr>)
          else if ch = CHR 0x22 then Inr (r\<lparr>state := IN_QUOTED_FIELD\<rparr>)
          else if ch = CHR '','' then Inr ((save_field r)\<lparr>state := START_FIELD\<rparr>)
          else Inr ((add_char r ch)\<lparr>state := IN_FIELD\<rparr>))"

definition process_char :: "reader \<Rightarrow> char option \<Rightarrow> error + reader" where
  "process_char r c =
     (case state r of
        START_RECORD \<Rightarrow>
          (case c of
             None \<Rightarrow> Inr r
           | Some ch \<Rightarrow> if is_newline ch then Inr (r\<lparr>state := EAT_CRNL\<rparr>)
                        else start_field r c)
      | START_FIELD \<Rightarrow> start_field r c
      | IN_FIELD \<Rightarrow>
          (case c of
             None \<Rightarrow> Inr ((save_field r)\<lparr>state := START_RECORD\<rparr>)
           | Some ch \<Rightarrow>
               if is_newline ch then Inr ((save_field r)\<lparr>state := EAT_CRNL\<rparr>)
               else if ch = CHR '','' then Inr ((save_field r)\<lparr>state := START_FIELD\<rparr>)
               else Inr (add_char r ch))
      | IN_QUOTED_FIELD \<Rightarrow>
          (case c of
             None \<Rightarrow> Inr r
           | Some ch \<Rightarrow>
               if ch = CHR 0x22 then Inr (r\<lparr>state := QUOTE_IN_QUOTED_FIELD\<rparr>)
               else Inr (add_char r ch))
      | QUOTE_IN_QUOTED_FIELD \<Rightarrow>
          (case c of
             None \<Rightarrow> Inr ((save_field r)\<lparr>state := START_RECORD\<rparr>)
           | Some ch \<Rightarrow>
               if ch = CHR 0x22 then Inr ((add_char r ch)\<lparr>state := IN_QUOTED_FIELD\<rparr>)
               else if ch = CHR '','' then Inr ((save_field r)\<lparr>state := START_FIELD\<rparr>)
               else if is_newline ch then Inr ((save_field r)\<lparr>state := EAT_CRNL\<rparr>)
               else Inr ((add_char r ch)\<lparr>state := IN_FIELD\<rparr>))
      | EAT_CRNL \<Rightarrow>
          (case c of
             None \<Rightarrow> Inr (r\<lparr>state := START_RECORD\<rparr>)
           | Some ch \<Rightarrow>
               if is_newline ch then Inr r
               else Inl (Exception ''new-line character seen in unquoted field - do you need to open the file in universal-newline mode?'')))"

text \<open>
  The reader over the characters of the file (\<open>Reader.__next__\<close> for every record): a
  line ends with its line feed, the end-of-line marker follows the characters of each
  line, and a record is complete when the automaton is back in \<open>START_RECORD\<close> after
  it. \<open>pending\<close> says that the current line has characters. At the end of the file
  an unfinished record is returned as it stands.
\<close>

fun reader_rows :: "reader \<Rightarrow> bool \<Rightarrow> string \<Rightarrow> error + string list list" where
  "reader_rows r pending [] =
     (if pending then
        (case process_char r None of
           Inl e \<Rightarrow> Inl e
         | Inr r' \<Rightarrow>
             if state r' = START_RECORD then Inr [cur_fields r'] else Inr [cur_fields (save_field r')])
      else if cur_field r \<noteq> [] \<or> state r = IN_QUOTED_FIELD then Inr [cur_fields (save_field r)]
      else Inr [])"
| "reader_rows r pending (c # cs) =
     (case process_char r (Some c) of
        Inl e \<Rightarrow> Inl e
      | Inr r1 \<Rightarrow>
          if c = CHR 0x0A then
            (case process_char r1 None of
               Inl e \<Rightarrow> Inl e
             | Inr r2 \<Rightarrow>
                 if state r2 = START_RECORD then
                   (case reader_rows reader_reset False cs of
                      Inl e \<Rightarrow> Inl e
                    | Inr rows \<Rightarrow> Inr (cur_fields r2 # rows))
                 else reader_rows r2 False cs)
          else reader_rows r1 True cs)"

text \<open>
  A text file opened without \<open>newline=''\<close> is read with universal newlines: CR LF and a
  lone CR become LF.
\<close>

fun universal_newlines :: "string \<Rightarrow> string" where
  "universal_newlines [] = []"
| "universal_newlines [c] = (if c = CHR 0x0D then [CHR 0x0A] else [c])"
| "universal_newlines (c # d # cs) =
     (if c = CHR 0x0D then
        (if d = CHR 0x0A then CHR 0x0A # universal_newlines cs
         else CHR 0x0A # universal_newlines (d # cs))
      else c # universal_newlines (d # cs))"

text \<open>
  \<open>csv.DictReader\<close>: the first row holds the field names; an empty row is skipped; a
  short row is filled with \<open>None\<close>, and the surplus of a long row is not reachable
  under a field name.
\<close>

fun dict_row :: "string list \<Rightarrow> string list \<Rightarrow> (string \<rightharpoonup> string option)" where
  "dict_row [] row = Map.empty"
| "dict_row (k # ks) [] = (dict_row ks [])(k \<mapsto> None)"
| "dict_row (k # ks) (v # vs) = (if k \<in> set ks then dict_row ks vs else (dict_row ks vs)(k \<mapsto> Some v))"

definition dict_reader :: "string list list \<Rightarrow> (string \<rightharpoonup> string option) list" where
  "dict_reader rows =
     (case rows of
        [] \<Rightarrow> []
      | fieldnames # rest \<Rightarrow> map (dict_row fieldnames) (filter (\<lambda>row. row \<noteq> []) rest))"

text \<open>
  The file system is a map from paths to file contents. \<open>str\<close> and \<open>float\<close> on the
  seconds of a segment are parameters: \<open>float_str\<close> is \<open>str(x)\<close> for a float \<open>x\<close> and
  \<open>float_of_str\<close> is \<open>float(s)\<close>.
\<close>

definition save_transcript_to_csv ::
  "(real \<Rightarrow> string) \<Rightarrow> (string \<rightharpoonup> string) \<Rightarrow> segment list \<Rightarrow> string \<Rightarrow>
   error + (string \<rightharpoonup> string)" where
  "save_transcript_to_csv float_str fs segs output_path =
     (if segs = [] then Inl (ValueError ''Cannot save empty transcript'')
      else Inr (fs(output_path \<mapsto>
             csv_writerow [''start_time'', ''end_time'', ''text''] @
             concat (map (\<lambda>s. csv_writerow [float_str (start s), float_str (end s), text s]) segs))))"

definition row_get :: "(string \<rightharpoonup> string option) \<Rightarrow> string \<Rightarrow> error + string option" where
  "row_get row k =
     (case row k of
        None \<Rightarrow> Inl (KeyError ([CHR 0x27] @ k @ [CHR 0x27]))
      | Some v \<Rightarrow> Inr v)"

definition py_float :: "(string \<Rightarrow> error + real) \<Rightarrow> string option \<Rightarrow> error + real" where
  "py_float float_of_str v =
     (case v of
        None \<Rightarrow> Inl (TypeError (''float() argument must be a string or a real number, not '' @
                       [CHR 0x27] @ ''NoneType'' @ [CHR 0x27]))
      | Some s \<Rightarrow> float_of_str s)"

text \<open>The body of the loop of \<open>load_transcript_from_csv\<close> for one row.\<close>

definition load_row ::
  "(string \<Rightarrow> error + real) \<Rightarrow> (string \<rightharpoonup> string option) \<Rightarrow> error + segment" where
  "load_row float_of_str row =
     (case row_get row ''start_time'' of
        Inl e \<Rightarrow> Inl e
      | Inr a \<Rightarrow>
          (case py_float float_of_str a of
             Inl e \<Rightarrow> Inl e
           | Inr st \<Rightarrow>
               (case row_get row ''end_time'' of
                  Inl e \<Rightarrow> Inl e
                | Inr b \<Rightarrow>
                    (case py_float float_of_str b of
                       Inl e \<Rightarrow> Inl e
                     | Inr en \<Rightarrow>
                         (case row_get row ''text'' of
                            Inl e \<Rightarrow> Inl e
                          | Inr t \<Rightarrow>
                              Inr \<lparr>start = st, end = en,
                                   text = (case t of None \<Rightarrow> [] | Some x \<Rightarrow> x),
                                   translated_text = None\<rparr>)))))"

fun load_rows ::
  "(string \<Rightarrow> error + real) \<Rightarrow> segment list \<Rightarrow> (string \<rightharpoonup> string option) list \<Rightarrow>
   error + segment list" where
  "load_rows float_of_str acc [] = Inr acc"
| "load_rows float_of_str acc (row # rows) =
     (case load_row float_of_str row of
        Inl e \<Rightarrow> Inl e
      | Inr s \<Rightarrow> load_rows float_of_str (acc @ [s]) rows)"

definition load_transcript_from_csv ::
  "(string \<Rightarrow> error + real) \<Rightarrow> (string \<rightharpoonup> string) \<Rightarrow> string \<Rightarrow> error + segment list" where
  "load_transcript_from_csv float_of_str fs csv_path =
     (case fs csv_path of
        None \<Rightarrow> Inl (FileNotFoundError (''CSV file not found: '' @ csv_path))
      | Some content \<Rightarrow>
          (case reader_rows reader_reset False (universal_newlines content) of
             Inl e \<Rightarrow> Inl (Exception (''Failed to load transcript from CSV: '' @ err_str e))
           | Inr rows \<Rightarrow>
               (case load_rows float_of_str [] (dict_reader rows) of
                  Inl e \<Rightarrow> Inl (Exception (''Failed to load transcript from CSV: '' @ err_str e))
                | Inr segs \<Rightarrow> Inr segs)))"

text \<open>Saving a transcript and loading the file that was written.\<close>

definition save_then_load ::
  "(real \<Rightarrow> string) \<Rightarrow> (string \<Rightarrow> error + real) \<Rightarrow> (string \<rightharpoonup> string) \<Rightarrow>
   segment list \<Rightarrow> string \<Rightarrow> error + segment list" where
  "save_then_load float_str float_of_str fs segs path =
     (case save_transcript_to_csv float_str fs segs path of
        Inl e \<Rightarrow> Inl e
      | Inr fs' \<Rightarrow> load_transcript_from_csv float_of_str fs' path)"

text \<open>\<open>str\<close> and \<open>float\<close> on the whole seconds 0.0 to 9.0, for the examples.\<close>

definition example_float_str :: "real \<Rightarrow> string" where
  "example_float_str x = digits (nat \<lfloor>x\<rfloor>) @ ''.0''"

definition example_float_of_str :: "string \<Rightarrow> error + real" where
  "example_float_of_str s =
     (case List.find (\<lambda>n. s = digits n @ ''.0'') [0, 1, 2, 3, 4, 5, 6, 7, 8, 9] of
        None \<Rightarrow> Inl (ValueError (''could not convert string to float: '' @
                       [CHR 0x27] @ s @ [CHR 0x27]))
      | Some n \<Rightarrow> Inr (of_nat n))"

text \<open>A character that the writer leaves unquoted.\<close>

definition plain :: "char \<Rightarrow> bool" where
  "plain c = (c \<noteq> CHR '','' \<and> c \<noteq> CHR 0x22 \<and> c \<noteq> CHR 0x0D \<and> c \<noteq> CHR 0x0A)"

text \<open>One line of the file as the reader sees it after the newline translation.\<close>

definition csv_line :: "string \<Rightarrow> string \<Rightarrow> string \<Rightarrow> string" where
  "csv_line a b t = a @ CHR '','' # b @ CHR '','' # csv_field t @ [CHR 0x0A]"

section \<open>SRT subtitles (\<open>srt_generator.py\<close>)\<close>

text \<open>
  A \<open>datetime.timedelta\<close> is modelled by its number of microseconds.
  \<open>timedelta(seconds=x)\<close> for a float \<open>x\<close> splits \<open>x\<close> into its integer and
  fractional part (exactly), multiplies the fractional part by \<open>10^6\<close> as floats and
  rounds the sum to whole microseconds, a half to even.
\<close>

definition microseconds :: "real \<Rightarrow> int" where
  "microseconds seconds =
     (let whole = py_int seconds; fraction = seconds - of_int whole in
      if fraction = 0 then whole * 1000000
      else round_half_even (of_int (whole * 1000000) + fl (1000000 * fraction)))"

text \<open>A \<open>timedelta\<close> of more than 999999999 days in magnitude raises \<open>OverflowError\<close>.\<close>

definition timedelta :: "real \<Rightarrow> error + int" where
  "timedelta seconds =
     (let us = microseconds seconds; days = us div 86400000000 in
      if days < - 2147483648 \<or> 2147483647 < days then
        Inl (OverflowError ''Python int too large to convert to C int'')
      else if days < - 999999999 \<or> 999999999 < days then
        Inl (OverflowError (''days='' @ format_d 0 days @ ''; must have magnitude <= 999999999''))
      else Inr us)"

text \<open>\<open>td.total_seconds()\<close>: the microseconds divided by \<open>10^6\<close>, as a float.\<close>

definition total_seconds :: "int \<Rightarrow> real" where
  "total_seconds td = fl (of_int td / 1000000)"

record subtitle =
  sub_index :: nat
  sub_start :: int
  sub_end :: int
  content :: string

definition create_subtitle :: "nat \<Rightarrow> real \<Rightarrow> real \<Rightarrow> string \<Rightarrow> error + subtitle" where
  "create_subtitle i start_time end_time txt =
     (case timedelta start_time of
        Inl e \<Rightarrow> Inl e
      | Inr a \<Rightarrow>
          (case timedelta end_time of
             Inl e \<Rightarrow> Inl e
           | Inr b \<Rightarrow> Inr \<lparr>sub_index = i, sub_start = a, sub_end = b, content = txt\<rparr>))"

text \<open>
  Modelled from the spec: \<open>srt.timedelta_to_srt_timestamp\<close> (package \<open>srt\<close>, not among
  the sources), the timestamp \<open>HH:MM:SS,mmm\<close> of a subtitle. The package computes it
  on the integers of the \<open>timedelta\<close> (days, seconds, microseconds), the milliseconds
  being the whole milliseconds of the microseconds; \<open>format_timestamp\<close> of the source
  is not called on this path.
\<close>

definition timedelta_to_srt_timestamp :: "int \<Rightarrow> string" where
  "timedelta_to_srt_timestamp td =
     (let days = td div 86400000000;
          seconds = td mod 86400000000 div 1000000;
          micros = td mod 1000000;
          hrs = seconds div 3600 + days * 24;
          secs_remainder = seconds mod 3600;
          mins = secs_remainder div 60;
          secs = secs_remainder mod 60;
          msecs = micros div 1000
      in format_d 2 hrs @ '':'' @ format_d 2 mins @ '':'' @ format_d 2 secs @ '','' @
         format_d 3 msecs)"

text \<open>
  Modelled from the spec: the timing line \<open>HH:MM:SS,mmm --> HH:MM:SS,mmm\<close> of a block
  (package \<open>srt\<close>, not among the sources).
\<close>

definition timing_line :: "int \<Rightarrow> int \<Rightarrow> string" where
  "timing_line a b =
     timedelta_to_srt_timestamp a @ '' --> '' @ timedelta_to_srt_timestamp b"

text \<open>
  Modelled from the spec: \<open>srt.make_legal_content\<close> (package \<open>srt\<close>, not among the
  sources): a content that is empty, starts with a line feed or holds a blank line has
  its outer line feeds removed and every run of line feeds replaced by one, so that the
  text lines of a block are followed by the first blank line.
\<close>

fun has_blank_line :: "string \<Rightarrow> bool" where
  "has_blank_line [] = False"
| "has_blank_line [c] = False"
| "has_blank_line (c # d # cs) = ((c = CHR 0x0A \<and> d = CHR 0x0A) \<or> has_blank_line (d # cs))"

fun collapse_newlines :: "string \<Rightarrow> string" where
  "collapse_newlines [] = []"
| "collapse_newlines [c] = [c]"
| "collapse_newlines (c # d # cs) =
     (if c = CHR 0x0A \<and> d = CHR 0x0A then collapse_newlines (d # cs)
      else c # collapse_newlines (d # cs))"

definition strip_newlines :: "string \<Rightarrow> string" where
  "strip_newlines s =
     rev (dropWhile (\<lambda>c. c = CHR 0x0A) (rev (dropWhile (\<lambda>c. c = CHR 0x0A) s)))"

definition make_legal_content :: "string \<Rightarrow> string" where
  "make_legal_content c =
     (if c \<noteq> [] \<and> hd c \<noteq> CHR 0x0A \<and> \<not> has_blank_line c then c
      else collapse_newlines (strip_newlines c))"

text \<open>
  Modelled from the spec: one block of \<open>srt.compose\<close> (\<open>Subtitle.to_srt\<close> of the
  package \<open>srt\<close>, not among the sources): the index, the timing line, the text and a
  blank line.
\<close>

definition srt_block :: "subtitle \<Rightarrow> string" where
  "srt_block s =
     digits (sub_index s) @ [CHR 0x0A] @
     timing_line (sub_start s) (sub_end s) @ [CHR 0x0A] @
     make_legal_content (content s) @ [CHR 0x0A, CHR 0x0A]"

text \<open>
  Modelled from the spec: \<open>srt.sort_and_reindex\<close>, which \<open>srt.compose\<close> applies first
  (package \<open>srt\<close>, not among the sources; the specification does not describe it). The
  subtitles are sorted by start, end and index (a stable sort), a subtitle without
  visible content, with a negative start or with a start not before its end is left
  out, and the remaining ones are numbered from 1.
\<close>

definition sub_lt :: "subtitle \<Rightarrow> subtitle \<Rightarrow> bool" where
  "sub_lt a b =
     (sub_start a < sub_start b \<or>
      (sub_start a = sub_start b \<and>
       (sub_end a < sub_end b \<or> (sub_end a = sub_end b \<and> sub_index a < sub_index b))))"

fun insert_sub :: "subtitle \<Rightarrow> subtitle list \<Rightarrow> subtitle list" where
  "insert_sub x [] = [x]"
| "insert_sub x (y # ys) = (if sub_lt y x then y # insert_sub x ys else x # y # ys)"

definition sorted_subs :: "subtitle list \<Rightarrow> subtitle list" where
  "sorted_subs subs = foldr insert_sub subs []"

definition should_skip :: "subtitle \<Rightarrow> bool" where
  "should_skip s = (strip (content s) = [] \<or> sub_start s < 0 \<or> sub_end s \<le> sub_start s)"

fun reindex :: "nat \<Rightarrow> nat \<Rightarrow> subtitle list \<Rightarrow> subtitle list" where
  "reindex sub_num skipped [] = []"
| "reindex sub_num skipped (s # ss) =
     (if should_skip s then reindex (Suc sub_num) (Suc skipped) ss
      else s\<lparr>sub_index := sub_num - skipped\<rparr> # reindex (Suc sub_num) skipped ss)"

definition sort_and_reindex :: "subtitle list \<Rightarrow> subtitle list" where
  "sort_and_reindex subs = reindex 1 0 (sorted_subs subs)"

text \<open>
  Modelled from the spec: \<open>srt.compose\<close> (package \<open>srt\<close>, not among the sources): the
  blocks of the sorted and renumbered subtitles.
\<close>

definition srt_compose :: "subtitle list \<Rightarrow> string" where
  "srt_compose subs = concat (map srt_block (sort_and_reindex subs))"

text \<open>
  The validation loop of \<open>generate_srt_from_segments\<close>; \<open>i\<close> counts from 0. A segment
  of the model always has \<open>start\<close>, \<open>end\<close> and \<open>text\<close>, so only \<open>translated_text\<close> can
  be missing.
\<close>

fun missing_field :: "bool \<Rightarrow> nat \<Rightarrow> segment list \<Rightarrow> error option" where
  "missing_field use_translated i [] = None"
| "missing_field use_translated i (s # ss) =
     (if use_translated \<and> translated_text s = None then
        Some (ValueError (''Segment '' @ digits i @ '' missing 'translated_text' field''))
      else missing_field use_translated (Suc i) ss)"

text \<open>The loop that creates the subtitles; \<open>i\<close> counts from 1.\<close>

fun subtitles_from :: "bool \<Rightarrow> nat \<Rightarrow> segment list \<Rightarrow> error + subtitle list" where
  "subtitles_from use_translated i [] = Inr []"
| "subtitles_from use_translated i (s # ss) =
     (case create_subtitle i (start s) (end s)
             (if use_translated then (case translated_text s of None \<Rightarrow> [] | Some t \<Rightarrow> t)
              else text s) of
        Inl e \<Rightarrow> Inl e
      | Inr sub \<Rightarrow>
          (case subtitles_from use_translated (Suc i) ss of
             Inl e \<Rightarrow> Inl e
           | Inr subs \<Rightarrow> Inr (sub # subs)))"

definition generate_srt_from_segments :: "segment list \<Rightarrow> bool \<Rightarrow> error + string" where
  "generate_srt_from_segments segs use_translated =
     (if segs = [] then Inl (ValueError ''Cannot generate SRT from empty segments'')
      else
        (case missing_field use_translated 0 segs of
           Some e \<Rightarrow> Inl e
         | None \<Rightarrow>
             (case subtitles_from use_translated 1 segs of
                Inl e \<Rightarrow> Inl e
              | Inr subs \<Rightarrow> Inr (srt_compose subs))))"

text \<open>Reading a decimal number and a fixed string at the front of a line.\<close>

definition is_digit :: "char \<Rightarrow> bool" where
  "is_digit c = (c \<in> set ''0123456789'')"

definition digit_value :: "char \<Rightarrow> nat" where
  "digit_value c = length (takeWhile (\<lambda>d. d \<noteq> c) ''0123456789'')"

definition nat_of_digits :: "string \<Rightarrow> nat" where
  "nat_of_digits ds = foldl (\<lambda>n c. 10 * n + digit_value c) 0 ds"

definition take_nat :: "string \<Rightarrow> (nat \<times> string) option" where
  "take_nat s =
     (let ds = takeWhile is_digit s in
      if ds = [] then None else Some (nat_of_digits ds, dropWhile is_digit s))"

definition expect :: "string \<Rightarrow> string \<Rightarrow> string option" where
  "expect p s = (if take (length p) s = p then Some (drop (length p) s) else None)"

text \<open>
  Modelled from the spec: a timestamp \<open>H:M:S,m\<close> as \<open>srt.parse\<close> reads it (package
  \<open>srt\<close>, not among the sources): the \<open>timedelta\<close> of its hours, minutes, seconds and
  milliseconds.
\<close>

definition parse_timestamp :: "string \<Rightarrow> (int \<times> string) option" where
  "parse_timestamp s =
     (case take_nat s of None \<Rightarrow> None | Some (h, r1) \<Rightarrow>
      case expect '':'' r1 of None \<Rightarrow> None | Some r2 \<Rightarrow>
      case take_nat r2 of None \<Rightarrow> None | Some (m, r3) \<Rightarrow>
      case expect '':'' r3 of None \<Rightarrow> None | Some r4 \<Rightarrow>
      case take_nat r4 of None \<Rightarrow> None | Some (sec, r5) \<Rightarrow>
      case expect '','' r5 of None \<Rightarrow> None | Some r6 \<Rightarrow>
      case take_nat r6 of None \<Rightarrow> None | Some (ms, r7) \<Rightarrow>
        Some (int (((h * 60 + m) * 60 + sec) * 1000 + ms) * 1000, r7))"

text \<open>Modelled from the spec: the time-range line, two timestamps around \<open>-->\<close>.\<close>

definition parse_time_range :: "string \<Rightarrow> (int \<times> int) option" where
  "parse_time_range l =
     (case parse_timestamp l of None \<Rightarrow> None | Some (a, r1) \<Rightarrow>
      case expect '' --> '' r1 of None \<Rightarrow> None | Some r2 \<Rightarrow>
      case parse_timestamp r2 of None \<Rightarrow> None | Some (b, r3) \<Rightarrow>
        if r3 = [] then Some (a, b) else None)"

text \<open>Modelled from the spec: the index line, a decimal number.\<close>

definition parse_index :: "string \<Rightarrow> nat option" where
  "parse_index l = (if l \<noteq> [] \<and> list_all is_digit l then Some (nat_of_digits l) else None)"

text \<open>\<open>s.split(c)\<close>: the pieces of \<open>s\<close> between the occurrences of \<open>c\<close>.\<close>

fun split_on :: "char \<Rightarrow> string \<Rightarrow> string list" where
  "split_on c [] = [[]]"
| "split_on c (x # xs) =
     (if x = c then [] # split_on c xs
      else (case split_on c xs of [] \<Rightarrow> [[x]] | l # ls \<Rightarrow> (x # l) # ls))"

text \<open>
  Modelled from the spec: \<open>srt.parse\<close> (package \<open>srt\<close>, not among the sources) on the
  lines of the content, by the standard SRT grammar: an index line, a time-range line,
  one or more text lines, a blank separator. Blank lines between blocks are skipped and
  the last block need not be followed by one.
\<close>

datatype parse_state =
    Expect_index
  | Expect_time nat
  | In_text nat int int "string list"

fun parse_lines :: "parse_state \<Rightarrow> subtitle list \<Rightarrow> string list \<Rightarrow> error + subtitle list" where
  "parse_lines Expect_index acc [] = Inr acc"
| "parse_lines Expect_index acc (l # ls) =
     (if l = [] then parse_lines Expect_index acc ls
      else (case parse_index l of
              None \<Rightarrow> Inl (Exception (''Expected an index line, found: '' @ l))
            | Some i \<Rightarrow> parse_lines (Expect_time i) acc ls))"
| "parse_lines (Expect_time i) acc [] = Inl (Exception ''Expected a time-range line, found the end'')"
| "parse_lines (Expect_time i) acc (l # ls) =
     (case parse_time_range l of
        None \<Rightarrow> Inl (Exception (''Expected a time-range line, found: '' @ l))
      | Some (a, b) \<Rightarrow> parse_lines (In_text i a b []) acc ls)"
| "parse_lines (In_text i a b txt) acc [] =
     (if txt = [] then Inl (Exception ''Expected a text line, found the end'')
      else Inr (acc @ [\<lparr>sub_index = i, sub_start = a, sub_end = b,
                        content = join [CHR 0x0A] txt\<rparr>]))"
| "parse_lines (In_text i a b txt) acc (l # ls) =
     (if l = [] then
        (if txt = [] then Inl (Exception ''Expected a text line, found a blank line'')
         else parse_lines Expect_index
                (acc @ [\<lparr>sub_index = i, sub_start = a, sub_end = b,
                         content = join [CHR 0x0A] txt\<rparr>]) ls)
      else parse_lines (In_text i a b (txt @ [l])) acc ls)"

text \<open>Modelled from the spec: \<open>srt.parse\<close> on the content split into lines.\<close>

definition srt_parse :: "string \<Rightarrow> error + subtitle list" where
  "srt_parse srt_content = parse_lines Expect_index [] (split_on (CHR 0x0A) srt_content)"

definition parse_srt :: "string \<Rightarrow> error + segment list" where
  "parse_srt srt_content =
     (case srt_parse srt_content of
        Inl e \<Rightarrow> Inl (Exception (''Failed to parse SRT content: '' @ err_str e))
      | Inr subs \<Rightarrow>
          Inr (map (\<lambda>s. \<lparr>start = total_seconds (sub_start s), end = total_seconds (sub_end s),
                          text = content s, translated_text = None\<rparr>) subs))"

text \<open>Generating the SRT content of a segment list from its original text and parsing it back.\<close>

definition srt_round_trip :: "segment list \<Rightarrow> error + segment list" where
  "srt_round_trip segs =
     (case generate_srt_from_segments segs False of
        Inl e \<Rightarrow> Inl e
      | Inr srt_content \<Rightarrow> parse_srt srt_content)"

text \<open>
  ASCII-safe, non-empty text: printable ASCII characters on one line, at least one of
  them visible.
\<close>

definition ascii_safe :: "string \<Rightarrow> bool" where
  "ascii_safe t =
     (list_all (\<lambda>c. (0x20::nat) \<le> of_char c \<and> of_char c \<le> (0x7E::nat)) t \<and>
      list_ex (\<lambda>c. c \<noteq> CHR '' '') t)"

text \<open>
  Times in list order, in the whole microseconds that \<open>timedelta\<close> keeps: every
  segment starts at or after 0 and before it ends, and ends no later than the next one
  starts.
\<close>

fun in_time_order :: "segment list \<Rightarrow> bool" where
  "in_time_order [] = True"
| "in_time_order [s] = (0 \<le> microseconds (start s) \<and> microseconds (start s) < microseconds (end s))"
| "in_time_order (s # t # ss) =
     (0 \<le> microseconds (start s) \<and> microseconds (start s) < microseconds (end s) \<and>
      microseconds (end s) \<le> microseconds (start t) \<and> in_time_order (t # ss))"

text \<open>What a time becomes when it is written with milliseconds and read back.\<close>

definition srt_time :: "real \<Rightarrow> real" where
  "srt_time x = total_seconds (microseconds x div 1000 * 1000)"

section \<open>Properties of the pipeline\<close>

subsection \<open>Rounding to the nearest float\<close>

lemma bits_bounds: "0 < n \<Longrightarrow> 2 ^ (bits n - 1) \<le> n \<and> n < 2 ^ bits n"
proof (induction n rule: bits.induct)
  case (1 n)
  show ?case
  proof (cases "n div 2 = 0")
    case True
    with 1(2) have "n = 1" by (simp add: div_eq_0_iff) 
    then show ?thesis by (simp add: bits.simps [of "Suc 0"] bits.simps [of 0])
  next
    case False
    then have p: "0 < n div 2" by simp
    from 1(1) [OF _ p] 1(2) have ih: "2 ^ (bits (n div 2) - 1) \<le> n div 2" "n div 2 < 2 ^ bits (n div 2)"
      by auto
    have b: "bits n = Suc (bits (n div 2))" using 1(2) by (simp add: bits.simps [of n])
    have pos: "0 < bits (n div 2)" using p by (simp add: bits.simps [of "n div 2"])
    have "2 ^ (bits n - 1) = 2 * 2 ^ (bits (n div 2) - 1)"
      using b pos by (cases "bits (n div 2)") simp_all
    also have "\<dots> \<le> 2 * (n div 2)" using ih(1) by simp
    also have "\<dots> \<le> n" by simp
    finally have l: "2 ^ (bits n - 1) \<le> n" .
    have "n < 2 * (n div 2) + 2" by presburger
    also have "\<dots> \<le> 2 * 2 ^ bits (n div 2)" using ih(2) by simp
    finally have "n < 2 ^ bits n" using b by simp
    with l show ?thesis by simp
  qed
qed


lemma bits_le: "n < 2 ^ k \<Longrightarrow> bits n \<le> k"
proof (cases "n = 0")
  case True
  then show ?thesis by (simp add: bits.simps [of 0])
next
  case False
  assume a: "n < 2 ^ k"
  from False bits_bounds [of n] have "2 ^ (bits n - 1) \<le> n" by simp
  with a have "(2::nat) ^ (bits n - 1) < 2 ^ k" by linarith
  then have "bits n - 1 < k" by (rule power_less_imp_less_exp [rotated]) simp
  then show ?thesis by simp
qed

lemma bits_pos: "0 < n \<Longrightarrow> 0 < bits n"
  by (simp add: bits.simps [of n])

lemma bits_eq: "2 ^ k \<le> n \<Longrightarrow> n < 2 ^ Suc k \<Longrightarrow> bits n = Suc k"
proof -
  assume a: "2 ^ k \<le> n" and b: "n < 2 ^ Suc k"
  have p: "0 < n" using a by (metis less_le_trans zero_less_numeral zero_less_power)
  from bits_le [OF b] have u: "bits n \<le> Suc k" .
  from bits_bounds [OF p] have "n < 2 ^ bits n" by simp
  with a have "(2::nat) ^ k < 2 ^ bits n" by linarith
  then have "k < bits n" by (rule power_less_imp_less_exp [rotated]) simp
  with u show ?thesis by simp
qed

lemma rhe_of_int [simp]: "round_half_even (of_int k) = k"
  by (simp add: round_half_even_def)

lemma rhe_le: "x \<le> of_int N \<Longrightarrow> round_half_even x \<le> N"
proof -
  assume a: "x \<le> of_int N"
  show ?thesis
  proof (cases "x = of_int N")
    case True
    then show ?thesis by simp
  next
    case False
    with a have "x < of_int N" by simp
    then have "\<lfloor>x\<rfloor> < N" by (simp add: floor_less_iff)
    then show ?thesis by (simp add: round_half_even_def Let_def)
  qed
qed

lemma rhe_ge: "of_int N \<le> x \<Longrightarrow> N \<le> round_half_even x"
proof -
  assume "of_int N \<le> x"
  then have "N \<le> \<lfloor>x\<rfloor>" by (simp add: le_floor_iff)
  then show ?thesis by (simp add: round_half_even_def Let_def)
qed

lemma rhe_lt_half: "x < of_int N - 1 / 2 \<Longrightarrow> round_half_even x \<le> N - 1"
proof -
  assume a: "x < of_int N - 1 / 2"
  then have f: "\<lfloor>x\<rfloor> \<le> N - 1"
    by (smt (verit, best) floor_le_iff of_int_1 of_int_diff field_sum_of_halves)
  show ?thesis
  proof (cases "\<lfloor>x\<rfloor> = N - 1")
    case True
    then have "x - of_int \<lfloor>x\<rfloor> < 1 / 2" using a by simp
    then show ?thesis using True by (simp add: round_half_even_def Let_def)
  next
    case False
    with f have "\<lfloor>x\<rfloor> + 1 \<le> N - 1" by simp
    then show ?thesis by (simp add: round_half_even_def Let_def)
  qed
qed

lemma rhe_close: "\<bar>of_int (round_half_even x) - x\<bar> \<le> 1 / 2"
proof -
  have "of_int \<lfloor>x\<rfloor> \<le> x" "x < of_int \<lfloor>x\<rfloor> + 1" by linarith+
  then show ?thesis by (simp add: round_half_even_def Let_def abs_if) linarith
qed


lemma ulp_pos: "0 < ulp x"
  by (simp add: ulp_def)

lemma pow2_div: "m \<le> n \<Longrightarrow> (2::real) ^ m / 2 ^ n = 1 / 2 ^ (n - m)"
  by (simp add: power_diff)

lemma nat_floor_less_pow: "x < 2 ^ p \<Longrightarrow> nat \<lfloor>x\<rfloor> < 2 ^ p"
proof -
  assume "x < 2 ^ p"
  then have "x < of_int (2 ^ p)" by simp
  then have "\<lfloor>x\<rfloor> < 2 ^ p" by (simp only: floor_less_iff)
  then show ?thesis by (simp add: nat_less_iff)
qed

lemma ulp_ge_one:
  assumes "1 \<le> x" "x < 2 ^ 53"
  shows "\<exists>j \<le> 52. ulp x = 1 / 2 ^ j \<and> bits (nat \<lfloor>x\<rfloor>) = 53 - j"
proof -
  let ?b = "bits (nat \<lfloor>x\<rfloor>)"
  have n: "0 < nat \<lfloor>x\<rfloor>" using assms(1) by simp
  have "nat \<lfloor>x\<rfloor> < 2 ^ 53" using assms(2) by (rule nat_floor_less_pow)
  then have u: "?b \<le> 53" by (rule bits_le)
  have l: "0 < ?b" using n by (rule bits_pos)
  have "ulp x = 2 ^ (?b - 1) / 2 ^ 52" using assms(1) by (simp add: ulp_def)
  also have "\<dots> = 1 / 2 ^ (52 - (?b - 1))" using u by (intro pow2_div) simp
  finally have "ulp x = 1 / 2 ^ (53 - ?b)" using l by (simp add: Suc_diff_Suc)
  then show ?thesis using u l by (intro exI [of _ "53 - ?b"]) simp
qed

lemma ulp_lt_one:
  assumes "0 < x" "x < 1"
  shows "\<exists>j \<ge> 53. ulp x = 1 / 2 ^ j"
proof -
  let ?k = "bits (nat (\<lceil>1 / x\<rceil> - 1))"
  have "1 < 1 / x" using assms by simp
  then have "2 \<le> \<lceil>1 / x\<rceil>" by (simp add: less_ceiling_iff) 
  then have "0 < nat (\<lceil>1 / x\<rceil> - 1)" by simp
  then have k: "0 < ?k" by (rule bits_pos)
  have "ulp x = 1 / 2 ^ (min (?k + 52) 1074)"
    using assms by (simp add: ulp_def)
  moreover have "53 \<le> min (?k + 52) 1074" using k by simp
  ultimately show ?thesis by blast
qed

lemma ulp_pow:
  assumes "0 < x" "x < 2 ^ 53"
  shows "\<exists>j. ulp x = 1 / 2 ^ j"
proof (cases "1 \<le> x")
  case True
  with assms ulp_ge_one [of x] show ?thesis by blast
next
  case False
  with assms ulp_lt_one [of x] show ?thesis by auto
qed

lemma fl_pos_def: "0 < x \<Longrightarrow> fl x = of_int (round_half_even (x / ulp x)) * ulp x"
  by (simp add: fl_def)

lemma fl_multiple:
  assumes "0 < x" "x = of_int k * ulp x"
  shows "fl x = x"
proof -
  have "x / ulp x = of_int k" using assms(2) ulp_pos [of x]
    by (metis less_irrefl nonzero_eq_divide_eq)
  then show ?thesis using assms by (simp add: fl_pos_def)
qed

lemma fl_le_int:
  assumes "0 < x" "x < 2 ^ 53" "x \<le> of_int c"
  shows "fl x \<le> of_int c"
proof -
  from ulp_pow [OF assms(1,2)] obtain j where j: "ulp x = 1 / 2 ^ j" by blast
  have "x / ulp x = x * 2 ^ j" by (simp add: j)
  also have "\<dots> \<le> of_int c * 2 ^ j" using assms(3) by simp
  also have "\<dots> = of_int (c * 2 ^ j)" by simp
  finally have "round_half_even (x / ulp x) \<le> c * 2 ^ j" by (rule rhe_le)
  then have "(of_int (round_half_even (x / ulp x)) :: real) \<le> of_int (c * 2 ^ j)"
    by (simp only: of_int_le_iff)
  then have "of_int (round_half_even (x / ulp x)) / 2 ^ j \<le> (of_int c :: real)"
    by (simp add: field_simps)
  then show ?thesis using assms(1) by (simp add: fl_pos_def j)
qed

lemma fl_ge_int:
  assumes "0 < x" "x < 2 ^ 53" "of_int c \<le> x"
  shows "of_int c \<le> fl x"
proof -
  from ulp_pow [OF assms(1,2)] obtain j where j: "ulp x = 1 / 2 ^ j" by blast
  have "of_int (c * 2 ^ j) = of_int c * (2::real) ^ j" by simp
  also have "\<dots> \<le> x * 2 ^ j" using assms(3) by simp
  also have "\<dots> = x / ulp x" by (simp add: j)
  finally have "c * 2 ^ j \<le> round_half_even (x / ulp x)" by (rule rhe_ge)
  then have "(of_int (c * 2 ^ j) :: real) \<le> of_int (round_half_even (x / ulp x))"
    by (simp only: of_int_le_iff)
  then have "(of_int c :: real) \<le> of_int (round_half_even (x / ulp x)) / 2 ^ j"
    by (simp add: field_simps)
  then show ?thesis using assms(1) by (simp add: fl_pos_def j)
qed

lemma fl_of_int:
  assumes "0 \<le> n" "n < 2 ^ 53"
  shows "fl (of_int n) = of_int n"
proof (cases "n = 0")
  case True
  then show ?thesis by (simp add: fl_def)
next
  case False
  with assms have p: "(0::real) < of_int n" "(of_int n :: real) < 2 ^ 53" by simp_all
  have "fl (of_int n) \<le> of_int n" by (rule fl_le_int [OF p]) simp
  moreover have "of_int n \<le> fl (of_int n)" by (rule fl_ge_int [OF p]) simp
  ultimately show ?thesis by simp
qed

lemma fl_error:
  assumes "0 < x"
  shows "\<bar>fl x - x\<bar> \<le> ulp x / 2"
proof -
  let ?u = "ulp x"
  have u: "0 < ?u" by (rule ulp_pos)
  have "fl x - x = (of_int (round_half_even (x / ?u)) - x / ?u) * ?u"
    using u assms by (simp add: fl_pos_def field_simps)
  then have "\<bar>fl x - x\<bar> = \<bar>of_int (round_half_even (x / ?u)) - x / ?u\<bar> * ?u"
    using u by (simp add: abs_mult)
  also have "\<dots> \<le> 1 / 2 * ?u"
    using rhe_close [of "x / ?u"] u by (intro mult_right_mono) simp_all
  finally show ?thesis by simp
qed

lemma fl_nonneg: "0 \<le> x \<Longrightarrow> 0 \<le> fl x"
proof (cases "x = 0")
  case True
  then show ?thesis by (simp add: fl_def)
next
  case False
  assume "0 \<le> x"
  with False have p: "0 < x" by simp
  have "0 \<le> x / ulp x" using p ulp_pos [of x] by simp
  then have "0 \<le> round_half_even (x / ulp x)" using rhe_ge [of 0 "x / ulp x"] by simp
  then show ?thesis using p ulp_pos [of x] by (simp add: fl_pos_def)
qed

lemma fmod_nonneg_eq:
  assumes "0 \<le> x" "0 < y"
  shows "fmod x y = x - y * of_int \<lfloor>x / y\<rfloor>"
  using assms by (simp add: fmod_def py_int_def)

lemma real_mod_bounds:
  assumes "0 < (y::real)"
  shows "0 \<le> x - y * of_int \<lfloor>x / y\<rfloor>" "x - y * of_int \<lfloor>x / y\<rfloor> < y"
proof -
  have "of_int \<lfloor>x / y\<rfloor> \<le> x / y" by simp
  then have "of_int \<lfloor>x / y\<rfloor> * y \<le> x"
    using assms pos_le_divide_eq [of y "of_int \<lfloor>x / y\<rfloor>" x] by blast
  then show "0 \<le> x - y * of_int \<lfloor>x / y\<rfloor>" by (simp add: mult.commute)
  have "x / y < of_int \<lfloor>x / y\<rfloor> + 1" by linarith
  then have "x < (of_int \<lfloor>x / y\<rfloor> + 1) * y"
    using assms pos_divide_less_eq [of y x "of_int \<lfloor>x / y\<rfloor> + 1"] by blast
  then show "x - y * of_int \<lfloor>x / y\<rfloor> < y" by (simp add: algebra_simps)
qed

lemma py_mod_exact:
  assumes "0 \<le> x" "0 < y"
  shows "py_mod x y = x - y * of_int \<lfloor>x / y\<rfloor>"
proof -
  have "\<not> (x - y * of_int \<lfloor>x / y\<rfloor> < 0)" using real_mod_bounds(1) [OF assms(2), of x] by simp
  then show ?thesis using assms by (simp add: py_mod_def fmod_nonneg_eq Let_def)
qed

lemma py_floordiv_exact:
  assumes "0 \<le> x" "x < 2 ^ 53" "0 < k"
  shows "py_floordiv x (of_int k) = of_int \<lfloor>x / of_int k\<rfloor>"
proof -
  let ?y = "of_int k :: real"
  let ?q = "\<lfloor>x / ?y\<rfloor>"
  have y: "0 < ?y" using assms(3) by simp
  have q0: "0 \<le> ?q" using assms(1) y by simp
  have m: "fmod x ?y = x - ?y * of_int ?q" by (rule fmod_nonneg_eq [OF assms(1) y])
  have mb: "0 \<le> x - ?y * of_int ?q" by (rule real_mod_bounds(1) [OF y])
  have kq: "of_int (k * ?q) \<le> x" using mb by simp
  then have kq_lt: "(of_int (k * ?q) :: real) < 2 ^ 53" using assms(2) by linarith
  then have kq_lt': "k * ?q < 2 ^ 53" by (metis of_int_less_iff of_int_numeral of_int_power)
  have kq0: "0 \<le> k * ?q" using q0 assms(3) by simp
  have "?q \<le> k * ?q" using q0 assms(3) by (simp add: mult_le_cancel_right1)
  then have q_lt: "?q < 2 ^ 53" using kq_lt' by linarith
  have a: "fl (x - fmod x ?y) = of_int (k * ?q)"
    using fl_of_int [OF kq0 kq_lt'] by (simp add: m)
  have b: "of_int (k * ?q) / ?y = (of_int ?q :: real)" using y by simp
  have d: "fl (fl (x - fmod x ?y) / ?y) = of_int ?q"
    unfolding a b by (rule fl_of_int [OF q0 q_lt])
  have n: "\<not> (fmod x ?y < 0)" using mb m by simp
  have z: "fl 0 = 0" by (simp add: fl_def)
  show ?thesis
    unfolding py_floordiv_def Let_def d using n y z by simp
qed

lemma float_grid:
  assumes "is_float s" "1 / 2 \<le> s"
  shows "\<exists>K::int. s * 2 ^ 53 = of_int K"
proof -
  have p: "0 < s" using assms(2) by simp
  from assms(1) have e: "s = of_int (round_half_even (s / ulp s)) * ulp s"
    using p by (simp add: is_float_def fl_pos_def)
  let ?K = "round_half_even (s / ulp s)"
  show ?thesis
  proof (cases "1 \<le> s")
    case True
    define b where "b = bits (nat \<lfloor>s\<rfloor>)"
    define u where "u = ulp s"
    define K where "K = round_half_even (s / ulp s)"
    have u: "u = 2 ^ (b - 1) / 2 ^ 52" using True by (simp add: ulp_def u_def b_def)
    have e': "s = of_int K * u" unfolding K_def u_def by (rule e)
    have "s * 2 ^ 53 = of_int K * u * 2 ^ 53" by (rule arg_cong [OF e', of "\<lambda>t. t * 2 ^ 53"])
    also have "\<dots> = of_int K * 2 ^ (b - 1) * 2" unfolding u by simp
    also have "\<dots> = of_int (K * 2 ^ (b - 1) * 2)" by simp
    finally show ?thesis by blast
  next
    case False
    then have lt: "s < 1" by simp
    have "1 / s \<le> 2" using assms(2) p by (simp add: field_simps)
    then have c1: "\<lceil>1 / s\<rceil> \<le> 2" by linarith
    have "1 < 1 / s" using lt p by simp
    then have c2: "2 \<le> \<lceil>1 / s\<rceil>" by linarith
    from c1 c2 have "\<lceil>1 / s\<rceil> = 2" by (rule order.antisym)
    then have "bits (nat (\<lceil>1 / s\<rceil> - 1)) = 1"
      by (simp add: bits.simps [of "Suc 0"] bits.simps [of 0])
    then have u: "ulp s = 1 / 2 ^ 53" using lt by (simp add: ulp_def)
    define K where "K = round_half_even (s / ulp s)"
    have e': "s = of_int K * ulp s" unfolding K_def by (rule e)
    have "s * 2 ^ 53 = of_int K * ulp s * 2 ^ 53" by (rule arg_cong [OF e', of "\<lambda>t. t * 2 ^ 53"])
    also have "\<dots> = of_int K * (1 / 2 ^ 53) * 2 ^ 53" by (simp only: u)
    also have "\<dots> = of_int K" by simp
    finally show ?thesis by blast
  qed
qed

lemma float_frac_le:
  assumes "is_float s" "0 \<le> s"
  shows "s - of_int \<lfloor>s\<rfloor> \<le> 1 - 1 / 2 ^ 53"
proof (cases "1 / 2 \<le> s")
  case True
  from float_grid [OF assms(1) True] obtain K :: int where K: "s * 2 ^ 53 = of_int K" by blast
  let ?f = "s - of_int \<lfloor>s\<rfloor>"
  have "?f * 2 ^ 53 = of_int (K - \<lfloor>s\<rfloor> * 2 ^ 53)" using K by (simp add: algebra_simps)
  moreover have "?f < 1" by linarith
  then have "?f * 2 ^ 53 < 1 * 2 ^ 53" by (simp only: mult_less_cancel_right_pos zero_less_power zero_less_numeral)
  ultimately have "(of_int (K - \<lfloor>s\<rfloor> * 2 ^ 53) :: real) < of_int (2 ^ 53)" by simp
  then have "K - \<lfloor>s\<rfloor> * 2 ^ 53 < 2 ^ 53" by (simp only: of_int_less_iff)
  then have "K - \<lfloor>s\<rfloor> * 2 ^ 53 \<le> 2 ^ 53 - 1" by simp
  then have "(of_int (K - \<lfloor>s\<rfloor> * 2 ^ 53) :: real) \<le> of_int (2 ^ 53 - 1)" by (simp only: of_int_le_iff)
  then have "?f * 2 ^ 53 \<le> 2 ^ 53 - 1"
    using \<open>?f * 2 ^ 53 = of_int (K - \<lfloor>s\<rfloor> * 2 ^ 53)\<close> by simp
  then show ?thesis by (simp add: field_simps)
next
  case False
  then have "s < 1 / 2" by simp
  with assms(2) have "\<lfloor>s\<rfloor> = 0" by (simp add: floor_eq_iff)
  with \<open>s < 1 / 2\<close> show ?thesis by simp
qed

lemma bits_between: "a \<le> n \<Longrightarrow> n < b \<Longrightarrow> a = 2 ^ k \<Longrightarrow> b = 2 ^ Suc k \<Longrightarrow> bits n = Suc k"
  using bits_eq [of k n] by simp

lemma fl_millis_bounds:
  assumes "0 \<le> f" "f \<le> 1 - 1 / 2 ^ 53"
  shows "0 \<le> fl (f * 1000)" "fl (f * 1000) < 1000"
proof -
  let ?v = "f * 1000"
  show "0 \<le> fl ?v" using assms(1) by (intro fl_nonneg) simp
  have f1: "f < 1" using assms(2) by (smt (verit) divide_pos_pos zero_less_numeral zero_less_power)
  have vlt: "?v < 1000" using f1 by simp
  show "fl ?v < 1000"
  proof (cases "?v < 512")
    case True
    show ?thesis
    proof (cases "?v = 0")
      case True
      then show ?thesis by (simp add: fl_def)
    next
      case False
      with assms(1) have p: "0 < ?v" by simp
      have "?v < 2 ^ 53" using True by simp
      from fl_le_int [OF p this, of 512] True have "fl ?v \<le> 512" by simp
      then show ?thesis by simp
    qed
  next
    case False
    then have ge: "512 \<le> ?v" by simp
    then have p: "0 < ?v" by simp
    have n1: "512 \<le> nat \<lfloor>?v\<rfloor>" using ge by linarith
    have n2: "nat \<lfloor>?v\<rfloor> < 1024" using vlt by linarith
    have b: "bits (nat \<lfloor>?v\<rfloor>) = Suc 9" by (rule bits_between [OF n1 n2]) simp_all
    have u: "ulp ?v = 1 / 2 ^ 43" using ge b by (simp add: ulp_def)
    have "?v / ulp ?v = ?v * 2 ^ 43" by (simp add: u)
    also have "\<dots> \<le> (1 - 1 / 2 ^ 53) * 1000 * 2 ^ 43" using assms(2) by simp
    also have "\<dots> < of_int (1000 * 2 ^ 43) - 1 / 2" by simp
    finally have "round_half_even (?v / ulp ?v) \<le> 1000 * 2 ^ 43 - 1" by (rule rhe_lt_half)
    then have "(of_int (round_half_even (?v / ulp ?v)) :: real) \<le> of_int (1000 * 2 ^ 43 - 1)"
      by (simp only: of_int_le_iff)
    then have "of_int (round_half_even (?v / ulp ?v)) * (1 / 2 ^ 43) < (1000::real)" by simp
    then show ?thesis using p by (simp add: fl_pos_def u)
  qed
qed

lemma replicate_2_3: "replicate 2 x = [x, x]" "replicate 3 x = [x, x, x]"
  by (simp_all add: numeral_2_eq_2 numeral_3_eq_3)

lemmas float_eval = fl_def ulp_def round_half_even_def bits.simps Let_def is_float_def

subsection \<open>Claim C1: \<open>translate_segments\<close>\<close>

lemma translate_segment_log:
  "snd (translate_segment W S txt src tgt ctx provider) = [] \<or>
   (\<exists>p. snd (translate_segment W S txt src tgt ctx provider) =
        [Translate_call p txt (fst (translate_segment W S txt src tgt ctx provider))])"
  by (simp add: translate_segment_def translate_with_context_def Let_def)

lemma translate_segment_openai:
  assumes "src \<in> set (SUPPORTED_LANGUAGES S)" "tgt \<in> set (SUPPORTED_LANGUAGES S)"
    and "py_or provider (DEFAULT_LLM_PROVIDER S) = ''openai''" "OPENAI_API_KEY S \<noteq> []"
    and "openai_chat W (translation_prompt ctx src tgt t) = Inr (Some a)"
  shows "translate_segment W S t src tgt ctx provider =
           (Inr (strip a), [Translate_call ''openai'' t (Inr (strip a))])"
  using assms
  by (simp add: translate_segment_def translate_with_context_def translate_with_openai_def
      strip_content_def Let_def)

lemma translate_segment_gemini:
  assumes "src \<in> set (SUPPORTED_LANGUAGES S)" "tgt \<in> set (SUPPORTED_LANGUAGES S)"
    and "py_or provider (DEFAULT_LLM_PROVIDER S) = ''gemini''" "GEMINI_API_KEY S \<noteq> []"
    and "gemini_generate W (translation_prompt ctx src tgt t) = Inr (Some a)"
  shows "translate_segment W S t src tgt ctx provider =
           (Inr (strip a), [Translate_call ''gemini'' t (Inr (strip a))])"
  using assms
  by (simp add: translate_segment_def translate_with_context_def translate_with_gemini_def
      strip_content_def Let_def)

lemma translate_loop_calls:
  assumes "\<forall>s \<in> set segs. translate_segment W S (text s) src tgt ctx provider =
             (Inr (tr (text s)), [Translate_call p (text s) (Inr (tr (text s)))])"
  shows "translate_loop W S src tgt ctx provider acc segs =
         (Inr (acc @ map (\<lambda>s. \<lparr>start = start s, end = end s, text = text s,
                               translated_text = Some (tr (text s))\<rparr>) segs),
          map (\<lambda>s. Translate_call p (text s) (Inr (tr (text s)))) segs)"
  using assms
  by (induction segs arbitrary: acc) simp_all

lemma ex_translate [simp]:
  "translate_segment answering_world example_settings t ''en'' ''es'' c (Some ''openai'') =
     (Inr ''Hola'', [Translate_call ''openai'' t (Inr ''Hola'')])"
  by (simp add: translate_segment_def translate_with_context_def translate_with_openai_def
      answering_world_def example_settings_def py_or_def strip_content_def strip_def is_space_def Let_def)

text \<open>
  Claim C1. Let the list of N segments be non-empty, let both languages be in
  \<open>SUPPORTED_LANGUAGES\<close>, and let the provider, given or by default, be \<open>openai\<close> or
  \<open>gemini\<close> with its key configured and its chat endpoint answer \<open>answer t\<close> to the
  translation prompt written for each segment's text \<open>t\<close> (the prompt is spelled out:
  the context, the two languages and the text between double quotes). Then
  \<open>translate_segments\<close> returns exactly N segments, in order, the i-th one copying
  \<open>start\<close>, \<open>end\<close> and \<open>text\<close> of the i-th input and carrying as \<open>translated_text\<close>
  the stripped answer to the prompt of the i-th text, after one backend invocation per
  segment, in order, each with that segment's text. On the empty list it raises
  \<open>ValueError\<close> and invokes no backend.
\<close>

theorem translate_segments_one_per_segment:
  assumes "segs \<noteq> []"
    and "src \<in> set (SUPPORTED_LANGUAGES S)" and "tgt \<in> set (SUPPORTED_LANGUAGES S)"
    and "py_or provider (DEFAULT_LLM_PROVIDER S) = p"
    and "prompt = (\<lambda>t. ''You are a professional translator.\<newline>\<newline>Context about the full content: '' @ ctx @
           ''\<newline>\<newline>Translate the following text from '' @ src @ '' to '' @ tgt @
           ''.\<newline>Maintain professional tone, cultural nuances, and technical accuracy.\<newline>'' @
           ''Only return the translated text, no explanations.\<newline>\<newline>Text to translate:\<newline>'' @
           [CHR 0x22] @ t @ [CHR 0x22] @ ''\<newline>\<newline>Translation:'')"
    and "(p = ''openai'' \<and> OPENAI_API_KEY S \<noteq> [] \<and>
          (\<forall>s \<in> set segs. openai_chat W (prompt (text s)) = Inr (Some (answer (text s))))) \<or>
         (p = ''gemini'' \<and> GEMINI_API_KEY S \<noteq> [] \<and>
          (\<forall>s \<in> set segs. gemini_generate W (prompt (text s)) = Inr (Some (answer (text s)))))"
  shows "translate_segments W S segs src tgt ctx provider =
           (Inr (map (\<lambda>s. \<lparr>start = start s, end = end s, text = text s,
                            translated_text = Some (strip (answer (text s)))\<rparr>) segs),
            map (\<lambda>s. Translate_call p (text s) (Inr (strip (answer (text s))))) segs) \<and>
         length (map (\<lambda>s. \<lparr>start = start s, end = end s, text = text s,
                            translated_text = Some (strip (answer (text s)))\<rparr>) segs) = length segs \<and>
         translate_segments W S [] src tgt ctx provider =
           (Inl (ValueError ''Cannot translate empty segments''), [])"
proof -
  have pr: "prompt = translation_prompt ctx src tgt"
    using assms(5) by (simp add: translation_prompt_def fun_eq_iff)
  have "\<forall>s \<in> set segs. translate_segment W S (text s) src tgt ctx provider =
          (Inr (strip (answer (text s))), [Translate_call p (text s) (Inr (strip (answer (text s))))])"
    using assms(2,3,4,6) translate_segment_openai [of src S tgt provider W ctx]
      translate_segment_gemini [of src S tgt provider W ctx]
    unfolding pr by auto
  from translate_loop_calls [OF this, of "[]"] assms(1)
  show ?thesis by (simp add: translate_segments_def)
qed

theorem translate_segments_one_per_segment_witness:
  "translate_segments answering_world example_settings
          [seg 0 3 ''Hello'', seg 3 6 ''World''] ''en'' ''es'' ''greeting'' (Some ''openai'') =
     (Inr [\<lparr>start = 0, end = 3, text = ''Hello'', translated_text = Some ''Hola''\<rparr>,
           \<lparr>start = 3, end = 6, text = ''World'', translated_text = Some ''Hola''\<rparr>],
      [Translate_call ''openai'' ''Hello'' (Inr ''Hola''),
       Translate_call ''openai'' ''World'' (Inr ''Hola'')])"
  using translate_segments_one_per_segment [where segs = "[seg 0 3 ''Hello'', seg 3 6 ''World'']"
      and src = "''en''" and S = example_settings and tgt = "''es''" and provider = "Some ''openai''"
      and p = "''openai''" and ctx = "''greeting''" and W = answering_world
      and answer = "\<lambda>t. ''Hola''", OF _ _ _ _ refl]
  by (simp add: seg_def answering_world_def example_settings_def py_or_def strip_def is_space_def)

text \<open>
  The translation backend need not succeed: when the provider's request fails on the
  first of two segments, \<open>translate_segments\<close> raises and returns no list, after that
  one invocation.
\<close>

theorem translate_segments_failure_counterexample:
  "translate_segments failing_world example_settings [seg 0 3 ''Hello'', seg 3 6 ''World'']
     ''en'' ''es'' ''greeting'' (Some ''openai'') =
     (Inl (Exception ''OpenAI translation failed: Connection error.''),
      [Translate_call ''openai'' ''Hello'' (Inl (Exception ''OpenAI translation failed: Connection error.''))])"
  by (simp add: translate_segments_def translate_segment_def translate_with_context_def
      translate_with_openai_def failing_world_def example_settings_def py_or_def seg_def Let_def)

subsection \<open>Claim C2: \<open>format_timestamp\<close>\<close>

lemmas timestamp_eval = format_timestamp_def py_floordiv_def py_mod_def fmod_def py_int_def
  format_d_def zero_pad_def digits.simps digit_char_def replicate_2_3

lemma py_int_of_int [simp]: "py_int (of_int k) = k"
  by (simp add: py_int_def)

lemma floor_div_3600: "\<lfloor>(s::real) / 3600\<rfloor> = \<lfloor>s\<rfloor> div 3600"
  using floor_divide_real_eq_div [of 3600 s] by simp

lemma floor_div_60: "\<lfloor>(s::real) / 60\<rfloor> = \<lfloor>s\<rfloor> div 60"
  using floor_divide_real_eq_div [of 60 s] by simp

lemma floor_minutes: "\<lfloor>spec_mod s 3600 / 60\<rfloor> = (\<lfloor>s\<rfloor> div 60) mod 60"
proof -
  have "spec_mod s 3600 / 60 = s / 60 - of_int (60 * \<lfloor>s / 3600\<rfloor>)"
    by (simp add: spec_mod_def field_simps)
  then have "\<lfloor>spec_mod s 3600 / 60\<rfloor> = \<lfloor>s / 60\<rfloor> - 60 * \<lfloor>s / 3600\<rfloor>"
    by (simp only: floor_diff_of_int)
  also have "\<dots> = \<lfloor>s\<rfloor> div 60 - 60 * ((\<lfloor>s\<rfloor> div 60) div 60)"
    by (simp add: floor_div_3600 floor_div_60 zdiv_zmult2_eq)
  also have "\<dots> = (\<lfloor>s\<rfloor> div 60) mod 60"
    by (simp add: minus_mult_div_eq_mod)
  finally show ?thesis .
qed

lemma floor_secs: "\<lfloor>spec_mod s 60\<rfloor> = \<lfloor>s\<rfloor> mod 60"
proof -
  have "spec_mod s 60 = s - of_int (60 * \<lfloor>s / 60\<rfloor>)"
    by (simp add: spec_mod_def)
  then have "\<lfloor>spec_mod s 60\<rfloor> = \<lfloor>s\<rfloor> - 60 * \<lfloor>s / 60\<rfloor>"
    by (simp only: floor_diff_of_int)
  then show ?thesis
    by (simp add: floor_div_60 minus_mult_div_eq_mod)
qed

lemma spec_mod_one: "spec_mod s 1 = s - of_int \<lfloor>s\<rfloor>"
  by (simp add: spec_mod_def)

lemma spec_mod_nonneg: "0 < y \<Longrightarrow> 0 \<le> spec_mod x y"
  unfolding spec_mod_def by (rule real_mod_bounds(1))

lemma py_mod_spec: "0 \<le> x \<Longrightarrow> 0 < y \<Longrightarrow> py_mod x y = spec_mod x y"
  by (simp add: py_mod_exact spec_mod_def)

lemma length_digits_2: "n < 100 \<Longrightarrow> length (zero_pad 2 (digits n)) = 2"
proof -
  assume "n < 100"
  then have "n div 10 < 10" by simp
  then show ?thesis
    by (simp add: zero_pad_def digits.simps [of n] digits.simps [of "n div 10"])
qed

lemma length_digits_3: "n < 1000 \<Longrightarrow> length (zero_pad 3 (digits n)) = 3"
proof -
  assume "n < 1000"
  then have "n div 10 div 10 < 10" by simp
  then show ?thesis
    by (simp add: zero_pad_def digits.simps [of n] digits.simps [of "n div 10"]
        digits.simps [of "n div 10 div 10"])
qed

lemma length_zero_pad: "w \<le> length (zero_pad w s)"
  by (simp add: zero_pad_def)

lemma seconds_sum:
  fixes q a b m r h :: int
  assumes "q = 60 * a + r" and "a = 60 * b + m" and "h = b"
  shows "3600 * h + 60 * m + r = q"
  using assms by simp

lemma timestamp_fields_sum:
  "3600 * \<lfloor>seconds / 3600\<rfloor> + 60 * \<lfloor>spec_mod seconds 3600 / 60\<rfloor> + \<lfloor>spec_mod seconds 60\<rfloor> =
   \<lfloor>seconds\<rfloor>"
proof -
  let ?q = "\<lfloor>seconds\<rfloor>"
  have e1: "?q = 60 * (?q div 60) + ?q mod 60" by simp
  have e2: "?q div 60 = 60 * (?q div 60 div 60) + ?q div 60 mod 60" by simp
  have e3: "?q div 3600 = ?q div 60 div 60"
    using zdiv_zmult2_eq [of 60 ?q 60] by simp
  show ?thesis
    unfolding floor_div_3600 floor_minutes floor_secs
    by (rule seconds_sum [OF e1 e2 e3])
qed

lemma fl_between_floor_ceiling:
  assumes "0 \<le> v" "v < 2 ^ 53"
  shows "of_int \<lfloor>v\<rfloor> \<le> fl v" "fl v \<le> of_int \<lceil>v\<rceil>"
proof -
  show "of_int \<lfloor>v\<rfloor> \<le> fl v"
  proof (cases "v = 0")
    case True
    then show ?thesis by (simp add: fl_def)
  next
    case False
    with assms have "0 < v" by simp
    from fl_ge_int [OF this assms(2), of "\<lfloor>v\<rfloor>"] show ?thesis by simp
  qed
  show "fl v \<le> of_int \<lceil>v\<rceil>"
  proof (cases "v = 0")
    case True
    then show ?thesis by (simp add: fl_def)
  next
    case False
    with assms have "0 < v" by simp
    from fl_le_int [OF this assms(2), of "\<lceil>v\<rceil>"] show ?thesis by simp
  qed
qed

lemma format_timestamp_string:
  assumes "is_float seconds" "0 \<le> seconds" "seconds < 2 ^ 53"
  shows "format_timestamp seconds =
           zero_pad 2 (digits (nat \<lfloor>seconds / 3600\<rfloor>)) @ '':'' @
           zero_pad 2 (digits (nat \<lfloor>spec_mod seconds 3600 / 60\<rfloor>)) @ '':'' @
           zero_pad 2 (digits (nat \<lfloor>spec_mod seconds 60\<rfloor>)) @ '','' @
           zero_pad 3 (digits (nat \<lfloor>fl (spec_mod seconds 1 * 1000)\<rfloor>))"
proof -
  have h: "0 \<le> \<lfloor>seconds / 3600\<rfloor>" using assms(2) by simp
  have m: "0 \<le> \<lfloor>spec_mod seconds 3600 / 60\<rfloor>" by (simp add: floor_minutes)
  have sc: "0 \<le> \<lfloor>spec_mod seconds 60\<rfloor>" by (simp add: floor_secs)
  have f: "spec_mod seconds 1 \<le> 1 - 1 / 2 ^ 53"
    unfolding spec_mod_one by (rule float_frac_le [OF assms(1,2)])
  have f0: "0 \<le> spec_mod seconds 1" by (simp add: spec_mod_nonneg)
  note msb = fl_millis_bounds [OF f0 f]
  have ms: "0 \<le> \<lfloor>fl (spec_mod seconds 1 * 1000)\<rfloor>" using msb(1) by simp
  have r0: "0 \<le> spec_mod seconds 3600" by (simp add: spec_mod_nonneg)
  have r1: "spec_mod seconds 3600 < 2 ^ 53"
    using real_mod_bounds(2) [of 3600 seconds] by (simp add: spec_mod_def)
  have i1: "py_int (py_floordiv seconds 3600) = \<lfloor>seconds / 3600\<rfloor>"
    using py_floordiv_exact [OF assms(2,3), of 3600] by simp
  have i2: "py_int (py_floordiv (py_mod seconds 3600) 60) = \<lfloor>spec_mod seconds 3600 / 60\<rfloor>"
    using py_floordiv_exact [OF r0 r1, of 60] assms(2) by (simp add: py_mod_spec)
  have i3: "py_int (py_mod seconds 60) = \<lfloor>spec_mod seconds 60\<rfloor>"
    using assms(2) spec_mod_nonneg [of 60 seconds] by (simp add: py_mod_spec py_int_def)
  have i4: "py_int (fl (py_mod seconds 1 * 1000)) = \<lfloor>fl (spec_mod seconds 1 * 1000)\<rfloor>"
    using assms(2) msb(1) by (simp add: py_mod_spec py_int_def)
  show ?thesis
    unfolding format_timestamp_def Let_def i1 i2 i3 i4 format_d_def
    using h m sc ms by simp
qed

text \<open>
  Claim C2, amended. For every float \<open>seconds\<close> with \<open>0 \<le> seconds < 2^53\<close>,
  \<open>format_timestamp\<close> returns \<open>HH:MM:SS,mmm\<close> with hours = floor(seconds/3600),
  minutes = floor((seconds mod 3600)/60), secs = floor(seconds mod 60) and millis the
  integer part of the float product \<open>(seconds mod 1) * 1000\<close>: the product is rounded
  to the nearest float and then truncated, not rounded to the nearest integer, so
  millis is floor((seconds mod 1) * 1000) or, when the product rounds up to a whole
  number, that number. \<open>MM\<close> and \<open>SS\<close> have exactly 2 digits, \<open>mmm\<close> exactly 3 and
  \<open>HH\<close> at least 2, and hours, minutes and secs together are the whole seconds of
  the input. The three examples of the specification hold at the floats 3661.5, 0.0
  and 65.123.
\<close>

theorem format_timestamp_truncates:
  assumes "is_float seconds" and "0 \<le> seconds" and "seconds < 2 ^ 53"
  shows "format_timestamp seconds =
           zero_pad 2 (digits (nat \<lfloor>seconds / 3600\<rfloor>)) @ '':'' @
           zero_pad 2 (digits (nat \<lfloor>spec_mod seconds 3600 / 60\<rfloor>)) @ '':'' @
           zero_pad 2 (digits (nat \<lfloor>spec_mod seconds 60\<rfloor>)) @ '','' @
           zero_pad 3 (digits (nat \<lfloor>fl (spec_mod seconds 1 * 1000)\<rfloor>)) \<and>
         2 \<le> length (zero_pad 2 (digits (nat \<lfloor>seconds / 3600\<rfloor>))) \<and>
         length (zero_pad 2 (digits (nat \<lfloor>spec_mod seconds 3600 / 60\<rfloor>))) = 2 \<and>
         length (zero_pad 2 (digits (nat \<lfloor>spec_mod seconds 60\<rfloor>))) = 2 \<and>
         length (zero_pad 3 (digits (nat \<lfloor>fl (spec_mod seconds 1 * 1000)\<rfloor>))) = 3 \<and>
         3600 * \<lfloor>seconds / 3600\<rfloor> + 60 * \<lfloor>spec_mod seconds 3600 / 60\<rfloor> +
           \<lfloor>spec_mod seconds 60\<rfloor> = \<lfloor>seconds\<rfloor> \<and>
         \<lfloor>spec_mod seconds 1 * 1000\<rfloor> \<le> \<lfloor>fl (spec_mod seconds 1 * 1000)\<rfloor> \<and>
         \<lfloor>fl (spec_mod seconds 1 * 1000)\<rfloor> \<le> \<lceil>spec_mod seconds 1 * 1000\<rceil> \<and>
         format_timestamp (fl (7323 / 2)) = ''01:01:01,500'' \<and>
         format_timestamp (fl 0) = ''00:00:00,000'' \<and>
         format_timestamp (fl (65123 / 1000)) = ''00:01:05,123''"
proof -
  have m: "0 \<le> \<lfloor>spec_mod seconds 3600 / 60\<rfloor>" "\<lfloor>spec_mod seconds 3600 / 60\<rfloor> < 60"
    by (simp_all add: floor_minutes)
  have sc: "0 \<le> \<lfloor>spec_mod seconds 60\<rfloor>" "\<lfloor>spec_mod seconds 60\<rfloor> < 60"
    by (simp_all add: floor_secs)
  have fr: "spec_mod seconds 1 \<le> 1 - 1 / 2 ^ 53"
    unfolding spec_mod_one by (rule float_frac_le [OF assms(1,2)])
  have f0: "0 \<le> spec_mod seconds 1" by (simp add: spec_mod_nonneg)
  note msb = fl_millis_bounds [OF f0 fr]
  have ms: "0 \<le> \<lfloor>fl (spec_mod seconds 1 * 1000)\<rfloor>" "\<lfloor>fl (spec_mod seconds 1 * 1000)\<rfloor> < 1000"
    using msb by (simp_all add: floor_less_iff)
  note a = format_timestamp_string [OF assms]
  have b: "2 \<le> length (zero_pad 2 (digits (nat \<lfloor>seconds / 3600\<rfloor>)))"
    by (rule length_zero_pad)
  have c: "length (zero_pad 2 (digits (nat \<lfloor>spec_mod seconds 3600 / 60\<rfloor>))) = 2"
  proof (rule length_digits_2)
    show "nat \<lfloor>spec_mod seconds 3600 / 60\<rfloor> < 100" using m by linarith
  qed
  have d: "length (zero_pad 2 (digits (nat \<lfloor>spec_mod seconds 60\<rfloor>))) = 2"
  proof (rule length_digits_2)
    show "nat \<lfloor>spec_mod seconds 60\<rfloor> < 100" using sc by linarith
  qed
  have e: "length (zero_pad 3 (digits (nat \<lfloor>fl (spec_mod seconds 1 * 1000)\<rfloor>))) = 3"
  proof (rule length_digits_3)
    show "nat \<lfloor>fl (spec_mod seconds 1 * 1000)\<rfloor> < 1000" using ms by linarith
  qed
  note f = timestamp_fields_sum [of seconds]
  have v0: "0 \<le> spec_mod seconds 1 * 1000" using f0 by simp
  have v1: "spec_mod seconds 1 * 1000 < 2 ^ 53"
    using real_mod_bounds(2) [of 1 seconds] by (simp add: spec_mod_def)
  note bt = fl_between_floor_ceiling [OF v0 v1]
  have k1: "\<lfloor>spec_mod seconds 1 * 1000\<rfloor> \<le> \<lfloor>fl (spec_mod seconds 1 * 1000)\<rfloor>"
    using bt(1) by (simp add: le_floor_iff)
  have k2: "\<lfloor>fl (spec_mod seconds 1 * 1000)\<rfloor> \<le> \<lceil>spec_mod seconds 1 * 1000\<rceil>"
    using bt(2) by (simp add: floor_le_iff)
  have g1: "format_timestamp (fl (7323 / 2)) = ''01:01:01,500''"
    by (simp add: float_eval timestamp_eval)
  have g2: "format_timestamp (fl 0) = ''00:00:00,000''"
    by (simp add: float_eval timestamp_eval)
  have g3: "format_timestamp (fl (65123 / 1000)) = ''00:01:05,123''"
    by (simp add: float_eval timestamp_eval)
  show ?thesis using a b c d e f k1 k2 g1 g2 g3 by blast
qed

text \<open>
  At the float 0.009, which lies below 9/1000, the product rounds to 9.0 and the
  timestamp shows 009 milliseconds.
\<close>

theorem format_timestamp_truncates_witness:
  "is_float (fl (9 / 1000)) \<and> (0::real) \<le> fl (9 / 1000) \<and> fl (9 / 1000) < 2 ^ 53 \<and>
   fl (9 / 1000) < 9 / 1000 \<and>
   format_timestamp (fl (9 / 1000)) = ''00:00:00,009''"
proof -
  have h: "is_float (fl (9 / 1000))" "(0::real) \<le> fl (9 / 1000)" "fl (9 / 1000) < 2 ^ 53"
    "fl (9 / 1000) < 9 / 1000"
    by (simp_all add: float_eval)
  have "format_timestamp (fl (9 / 1000)) = ''00:00:00,009''"
    by (simp add: float_eval timestamp_eval)
  with h format_timestamp_truncates [OF h(1,2,3)] show ?thesis by blast
qed

text \<open>
  Claim C2 as stated fails on the rounding: at the float 1/1024 s = 0.9765625 ms the
  source writes \<open>000\<close> milliseconds where rounding gives \<open>001\<close>.
\<close>

theorem format_timestamp_round_counterexample:
  "is_float (1 / 1024) \<and>
   format_timestamp (1 / 1024) = ''00:00:00,000'' \<and>
   spec_format_timestamp (1 / 1024) = ''00:00:00,001''"
  by (simp add: float_eval timestamp_eval spec_format_timestamp_def spec_mod_def round_def)

subsection \<open>Claim C4: provider failure in the context builder and in the other stages\<close>

lemma translate_loop_failed_call:
  "Translate_call p t (Inl e) \<in> set (snd (translate_loop W S src tgt ctx provider acc segs)) \<Longrightarrow>
   fst (translate_loop W S src tgt ctx provider acc segs) = Inl e"
proof (induction segs arbitrary: acc)
  case Nil
  then show ?case by simp
next
  case (Cons sg rest)
  obtain r cs where e: "translate_segment W S (text sg) src tgt ctx provider = (r, cs)"
    by (cases "translate_segment W S (text sg) src tgt ctx provider")
  have lg: "cs = [] \<or> (\<exists>q. cs = [Translate_call q (text sg) r])"
    using translate_segment_log [of W S "text sg" src tgt ctx provider] e by simp
  show ?case
  proof (cases r)
    case (Inl e')
    with Cons.prems e lg show ?thesis by auto
  next
    case (Inr tr)
    let ?acc = "acc @ [\<lparr>start = start sg, end = end sg, text = text sg, translated_text = Some tr\<rparr>]"
    obtain r' cs' where l: "translate_loop W S src tgt ctx provider ?acc rest = (r', cs')"
      by (cases "translate_loop W S src tgt ctx provider ?acc rest")
    from Cons.prems e Inr l lg have "Translate_call p t (Inl e) \<in> set cs'" by auto
    with Cons.IH [of ?acc] l have "r' = Inl e" by simp
    with e Inr l show ?thesis by simp
  qed
qed

text \<open>
  Claim C4. Whenever a provider call that \<open>build_context\<close> makes on a non-empty segment
  list (concatenated text of at least 10 characters) raises, \<open>build_context\<close> does not
  raise: it returns the fallback string with the source language code and the number
  of whitespace-separated words of the concatenated text. The other stages propagate:
  a backend failure inside \<open>translate_segment\<close>, \<open>translate_segments\<close> or
  \<open>Transcriber.transcribe_audio\<close> is the exception the stage itself raises.
\<close>

theorem context_builder_alone_substitutes:
  "(segs \<noteq> [] \<longrightarrow> 10 \<le> length (full_text segs) \<longrightarrow>
      Translate_call p t (Inl e) \<in> set (snd (build_context W S segs lang provider)) \<longrightarrow>
      fst (build_context W S segs lang provider) =
        Inr (''Content in '' @ lang @ '' language. Length: approximately '' @
             digits (length (split (full_text segs))) @ '' words.'')) \<and>
   (Translate_call p t (Inl e) \<in> set (snd (translate_segment W S txt src tgt ctx provider)) \<longrightarrow>
      fst (translate_segment W S txt src tgt ctx provider) = Inl e) \<and>
   (Translate_call p t (Inl e) \<in> set (snd (translate_segments W S segs src tgt ctx provider)) \<longrightarrow>
      fst (translate_segments W S segs src tgt ctx provider) = Inl e) \<and>
   (Transcribe_call p t (Inl e') \<in> set (snd (Transcriber_transcribe_audio W S path lang provider)) \<longrightarrow>
      fst (Transcriber_transcribe_audio W S path lang provider) = Inl e')"
proof (intro conjI impI)
  assume "segs \<noteq> []" "10 \<le> length (full_text segs)"
    and "Translate_call p t (Inl e) \<in> set (snd (build_context W S segs lang provider))"
  then show "fst (build_context W S segs lang provider) =
        Inr (''Content in '' @ lang @ '' language. Length: approximately '' @
             digits (length (split (full_text segs))) @ '' words.'')"
    by (auto simp: build_context_def generate_context_with_llm_def context_try_def
        fallback_context_def Let_def split: if_splits sum.splits)
next
  assume "Translate_call p t (Inl e) \<in> set (snd (translate_segment W S txt src tgt ctx provider))"
  then show "fst (translate_segment W S txt src tgt ctx provider) = Inl e"
    by (auto simp: translate_segment_def translate_with_context_def Let_def split: if_splits)
next
  assume "Translate_call p t (Inl e) \<in> set (snd (translate_segments W S segs src tgt ctx provider))"
  then show "fst (translate_segments W S segs src tgt ctx provider) = Inl e"
    by (auto simp: translate_segments_def translate_loop_failed_call split: if_splits)
next
  assume "Transcribe_call p t (Inl e') \<in> set (snd (Transcriber_transcribe_audio W S path lang provider))"
  then show "fst (Transcriber_transcribe_audio W S path lang provider) = Inl e'"
    by (auto simp: Transcriber_transcribe_audio_def LLMClient_transcribe_audio_def Let_def
        split: if_splits)
qed

lemma ex_full_text [simp]: "full_text [seg a b t] = t"
  by (simp add: full_text_def seg_def)

lemma ex_split: "split ''Hello world, this is a test'' = [''Hello'', ''world,'', ''this'', ''is'', ''a'', ''test'']"
  by (simp add: split_def is_space_def)

lemma ex_strip: "strip ''Hello world, this is a test'' = ''Hello world, this is a test''"
  by (simp add: strip_def is_space_def)

lemma ex_failing_context:
  "build_context failing_world example_settings [seg 0 3 ''Hello world, this is a test''] ''en''
     (Some ''openai'') =
   (Inr ''Content in en language. Length: approximately 6 words.'',
    [Translate_call ''openai'' (context_prompt ''en'' ''Hello world, this is a test'')
       (Inl (Exception ''OpenAI translation failed: Connection error.''))])"
  by (simp add: build_context_def generate_context_with_llm_def context_try_def
      fallback_context_def py_or_def Let_def translate_with_openai_def failing_world_def
      example_settings_def ex_split ex_strip digits.simps digit_char_def)

theorem context_builder_alone_substitutes_witness:
  "Translate_call ''openai'' (context_prompt ''en'' ''Hello world, this is a test'')
       (Inl (Exception ''OpenAI translation failed: Connection error.''))
     \<in> set (snd (build_context failing_world example_settings
                   [seg 0 3 ''Hello world, this is a test''] ''en'' (Some ''openai''))) \<and>
   fst (build_context failing_world example_settings
          [seg 0 3 ''Hello world, this is a test''] ''en'' (Some ''openai'')) =
     Inr ''Content in en language. Length: approximately 6 words.'' \<and>
   fst (translate_segments failing_world example_settings
          [seg 0 3 ''Hello world, this is a test''] ''en'' ''es'' [] (Some ''openai'')) =
     Inl (Exception ''OpenAI translation failed: Connection error.'')"
proof -
  let ?segs = "[seg 0 3 ''Hello world, this is a test'']"
  let ?e = "Exception ''OpenAI translation failed: Connection error.''"
  have a: "Translate_call ''openai'' (context_prompt ''en'' ''Hello world, this is a test'') (Inl ?e)
     \<in> set (snd (build_context failing_world example_settings ?segs ''en'' (Some ''openai'')))"
    by (simp add: ex_failing_context)
  have b: "Translate_call ''openai'' ''Hello world, this is a test'' (Inl ?e)
     \<in> set (snd (translate_segments failing_world example_settings ?segs ''en'' ''es'' [] (Some ''openai'')))"
    by (simp add: translate_segments_def translate_segment_def translate_with_context_def
        translate_with_openai_def failing_world_def example_settings_def py_or_def Let_def seg_def)
  have c: "(10::nat) \<le> length (full_text ?segs)" by simp
  from context_builder_alone_substitutes [of ?segs "''openai''"
      "context_prompt ''en'' ''Hello world, this is a test''" ?e failing_world example_settings
      "''en''" "Some ''openai''"] a c
  have r1: "fst (build_context failing_world example_settings ?segs ''en'' (Some ''openai'')) =
     Inr (''Content in '' @ ''en'' @ '' language. Length: approximately '' @
             digits (length (split (full_text ?segs))) @ '' words.'')" by simp
  from context_builder_alone_substitutes [of ?segs "''openai''" "''Hello world, this is a test''"
      ?e failing_world example_settings "''en''" "Some ''openai''" _ "''en''" "''es''" "[]"] b
  have r2: "fst (translate_segments failing_world example_settings ?segs ''en'' ''es'' [] (Some ''openai'')) = Inl ?e"
    by simp
  show ?thesis using a r1 r2 by (simp add: ex_split digits.simps digit_char_def)
qed

subsection \<open>Claim C6: provider resolution\<close>

text \<open>
  Claim C6, amended. In \<open>translate_with_context\<close> and \<open>LLMClient.transcribe_audio\<close> a
  provider argument that is omitted (\<open>None\<close>) or the empty string selects the
  configured default provider: the call is the call with the default given explicitly.
  A non-empty provider argument that is neither \<open>openai\<close> nor \<open>gemini\<close> raises
  \<open>ValueError\<close> "Unknown provider: ..." and no backend is invoked.
\<close>

theorem provider_resolution:
  "(provider = None \<or> provider = Some [] \<longrightarrow>
      translate_with_context W S txt src tgt ctx provider =
        translate_with_context W S txt src tgt ctx (Some (DEFAULT_LLM_PROVIDER S)) \<and>
      LLMClient_transcribe_audio W S path lang provider =
        LLMClient_transcribe_audio W S path lang (Some (DEFAULT_LLM_PROVIDER S))) \<and>
   (p \<noteq> [] \<longrightarrow> p \<noteq> ''openai'' \<longrightarrow> p \<noteq> ''gemini'' \<longrightarrow>
      translate_with_context W S txt src tgt ctx (Some p) =
        (Inl (ValueError (''Unknown provider: '' @ p)), []) \<and>
      LLMClient_transcribe_audio W S path lang (Some p) =
        (Inl (ValueError (''Unknown provider: '' @ p)), []))"
  by (auto simp: translate_with_context_def LLMClient_transcribe_audio_def py_or_def Let_def)

theorem provider_resolution_witness:
  "translate_with_context answering_world example_settings ''Hello'' ''en'' ''es'' [] None =
     (Inr ''Hola'', [Translate_call ''gemini'' ''Hello'' (Inr ''Hola'')]) \<and>
   translate_with_context answering_world example_settings ''Hello'' ''en'' ''es'' [] (Some ''azure'') =
     (Inl (ValueError ''Unknown provider: azure''), []) \<and>
   LLMClient_transcribe_audio answering_world example_settings ''a.wav'' ''en'' (Some ''azure'') =
     (Inl (ValueError ''Unknown provider: azure''), [])"
proof -
  have d: "translate_with_context answering_world example_settings ''Hello'' ''en'' ''es'' []
             (Some (DEFAULT_LLM_PROVIDER example_settings)) =
           (Inr ''Hola'', [Translate_call ''gemini'' ''Hello'' (Inr ''Hola'')])"
    by (simp add: translate_with_context_def translate_with_gemini_def answering_world_def
        example_settings_def py_or_def strip_content_def strip_def is_space_def Let_def)
  show ?thesis
    using d provider_resolution [of None answering_world example_settings "''Hello''" "''en''"
        "''es''" "[]" "''a.wav''" "''en''" "''azure''"]
    by simp
qed

text \<open>
  Claim C6 as stated fails for the empty string: it is a provider argument that is
  given and is neither identifier, and the call does not fail but translates with the
  default provider.
\<close>

theorem provider_resolution_counterexample:
  "translate_with_context answering_world example_settings ''Hello'' ''en'' ''es'' [] (Some []) =
     (Inr ''Hola'', [Translate_call ''gemini'' ''Hello'' (Inr ''Hola'')]) \<and>
   [] \<noteq> ''openai'' \<and> [] \<noteq> ''gemini''"
  by (simp add: translate_with_context_def translate_with_gemini_def answering_world_def
      example_settings_def py_or_def strip_content_def strip_def is_space_def Let_def)

subsection \<open>Claim C7: unsupported language codes\<close>

text \<open>
  Claim C7. A language code outside the allow-list is rejected with \<open>ValueError\<close>
  before any backend is invoked, and the message names the code and lists the allowed
  set: by \<open>Transcriber.transcribe_audio\<close> (once the audio file is found to exist, the
  check the source makes first), by \<open>translate_segment\<close> as the source language, and by
  \<open>translate_segment\<close> as the target language, where the message is the target's
  unless the source language is unsupported too, which is checked first and named
  instead. The source and the target message differ.
\<close>

theorem unsupported_language_rejected:
  assumes "language \<notin> set (SUPPORTED_LANGUAGES S)"
  shows "(file_exists W path \<longrightarrow>
            Transcriber_transcribe_audio W S path language provider =
              (Inl (ValueError (''Language '' @ [CHR 0x27] @ language @ [CHR 0x27] @
                     '' is not supported. Supported languages: '' @
                     join '', '' (SUPPORTED_LANGUAGES S))), [])) \<and>
         translate_segment W S txt language tgt ctx provider =
           (Inl (ValueError (''Source language '' @ [CHR 0x27] @ language @ [CHR 0x27] @
                  '' is not supported. Supported languages: '' @
                  join '', '' (SUPPORTED_LANGUAGES S))), []) \<and>
         translate_segment W S txt src language ctx provider =
           (if src \<in> set (SUPPORTED_LANGUAGES S)
            then (Inl (ValueError (''Target language '' @ [CHR 0x27] @ language @ [CHR 0x27] @
                  '' is not supported. Supported languages: '' @
                  join '', '' (SUPPORTED_LANGUAGES S))), [])
            else (Inl (ValueError (''Source language '' @ [CHR 0x27] @ src @ [CHR 0x27] @
                  '' is not supported. Supported languages: '' @
                  join '', '' (SUPPORTED_LANGUAGES S))), [])) \<and>
         ''Source language '' @ [CHR 0x27] @ language @ [CHR 0x27] @
           '' is not supported. Supported languages: '' @ join '', '' (SUPPORTED_LANGUAGES S) \<noteq>
         ''Target language '' @ [CHR 0x27] @ language @ [CHR 0x27] @
           '' is not supported. Supported languages: '' @ join '', '' (SUPPORTED_LANGUAGES S)"
  using assms
  by (simp add: Transcriber_transcribe_audio_def translate_segment_def)

theorem unsupported_language_rejected_witness:
  "''xyz'' \<notin> set (SUPPORTED_LANGUAGES example_settings) \<and>
   Transcriber_transcribe_audio answering_world example_settings ''a.wav'' ''xyz'' None =
     (Inl (ValueError (''Language 'xyz' is not supported. Supported languages: '' @
        ''en, zh, hi, es, ar, fr, bn, pt, ru, ur, id, de, ja, mr, te, tr, ta, vi, ko, sw'')), []) \<and>
   translate_segment answering_world example_settings ''Hello'' ''xyz'' ''es'' [] None =
     (Inl (ValueError (''Source language 'xyz' is not supported. Supported languages: '' @
        ''en, zh, hi, es, ar, fr, bn, pt, ru, ur, id, de, ja, mr, te, tr, ta, vi, ko, sw'')), []) \<and>
   translate_segment answering_world example_settings ''Hello'' ''en'' ''xyz'' [] None =
     (Inl (ValueError (''Target language 'xyz' is not supported. Supported languages: '' @
        ''en, zh, hi, es, ar, fr, bn, pt, ru, ur, id, de, ja, mr, te, tr, ta, vi, ko, sw'')), [])"
proof -
  have h: "''xyz'' \<notin> set (SUPPORTED_LANGUAGES example_settings)"
    by (simp add: example_settings_def)
  have f: "file_exists answering_world ''a.wav''" by (simp add: answering_world_def)
  have e: "''en'' \<in> set (SUPPORTED_LANGUAGES example_settings)"
    by (simp add: example_settings_def)
  have j: "join '', '' (SUPPORTED_LANGUAGES example_settings) =
    ''en, zh, hi, es, ar, fr, bn, pt, ru, ur, id, de, ja, mr, te, tr, ta, vi, ko, sw''"
    by (simp add: example_settings_def)
  show ?thesis
    using h f e unsupported_language_rejected [OF h, of answering_world "''a.wav''" None
        "''Hello''" "''es''" "[]" "''en''"]
    by (simp add: j)
qed

subsection \<open>Claim C8: short texts in the context builder\<close>

lemma length_strip_le: "length (strip s) \<le> length s"
proof -
  have "length (dropWhile is_space (rev (dropWhile is_space s))) \<le> length (rev (dropWhile is_space s))"
    by (rule length_dropWhile_le)
  also have "\<dots> \<le> length s" by (simp add: length_dropWhile_le)
  finally show ?thesis by (simp add: strip_def)
qed

text \<open>
  Claim C8, amended. For a non-empty segment list whose space-joined text has fewer
  than 10 characters, \<open>build_context\<close> returns the fixed literal
  "Short video content without specific context." and invokes no backend; for the
  empty list it raises \<open>ValueError\<close> "Cannot build context from empty segments".
\<close>

theorem build_context_short_text:
  "(segs \<noteq> [] \<longrightarrow> length (full_text segs) < 10 \<longrightarrow>
      build_context W S segs lang provider =
        (Inr ''Short video content without specific context.'', [])) \<and>
   build_context W S [] lang provider =
     (Inl (ValueError ''Cannot build context from empty segments''), [])"
  using length_strip_le [of "full_text segs"]
  by (simp add: build_context_def Let_def)

theorem build_context_short_text_witness:
  "length (full_text [seg 0 1 ''Hi'']) < 10 \<and>
   build_context answering_world example_settings [seg 0 1 ''Hi''] ''en'' None =
     (Inr ''Short video content without specific context.'', [])"
  using build_context_short_text [of "[seg 0 1 ''Hi'']" answering_world example_settings "''en''" None]
  by simp

text \<open>
  Claim C8 as stated fails on the literal: the text \<open>Hi\<close> is below the threshold and
  the string returned is not "short content, no specific context".
\<close>

theorem build_context_short_text_counterexample:
  "length (full_text [seg 0 1 ''Hi'']) < 10 \<and>
   fst (build_context answering_world example_settings [seg 0 1 ''Hi''] ''en'' None) =
     Inr ''Short video content without specific context.'' \<and>
   fst (build_context answering_world example_settings [seg 0 1 ''Hi''] ''en'' None) \<noteq>
     Inr ''short content, no specific context''"
  by (simp add: build_context_def Let_def strip_def is_space_def)

subsection \<open>Claim C9: transcription without segments\<close>

text \<open>
  Claim C9, amended. With the OpenAI provider, a response without segments (absent or
  empty) makes the gateway return the single segment from 0.0 to 0.0 with the
  response's full text. With the Gemini provider there is no such fallback: the answer
  goes through \<open>json.loads\<close>, a parse error is raised as
  "Gemini transcription failed: ...", and a parsed list is returned as it is.
\<close>

theorem transcription_fallback_openai_only:
  "(OPENAI_API_KEY S \<noteq> [] \<longrightarrow> py_or provider (DEFAULT_LLM_PROVIDER S) = ''openai'' \<longrightarrow>
      openai_transcriptions W path language = Inr r \<longrightarrow>
      (segments r = None \<or> segments r = Some []) \<longrightarrow>
      fst (LLMClient_transcribe_audio W S path language provider) =
        Inr [\<lparr>start = 0, end = 0, text = response_text r, translated_text = None\<rparr>]) \<and>
   (GEMINI_API_KEY S \<noteq> [] \<longrightarrow> py_or provider (DEFAULT_LLM_PROVIDER S) = ''gemini'' \<longrightarrow>
      gemini_audio W path (transcription_prompt language) = Inr answer \<longrightarrow>
      fst (LLMClient_transcribe_audio W S path language provider) =
        (case json_loads W answer of
           Inl e \<Rightarrow> Inl (Exception (''Gemini transcription failed: '' @ err_str e))
         | Inr segs \<Rightarrow> Inr segs))"
  by (auto simp: LLMClient_transcribe_audio_def transcribe_with_openai_def
      transcribe_with_gemini_def Let_def split: sum.splits)

theorem transcription_fallback_openai_only_witness:
  "fst (LLMClient_transcribe_audio answering_world example_settings ''a.wav'' ''en'' (Some ''openai'')) =
     Inr [\<lparr>start = 0, end = 0, text = ''hello there'', translated_text = None\<rparr>] \<and>
   fst (LLMClient_transcribe_audio answering_world example_settings ''a.wav'' ''en'' (Some ''gemini'')) =
     Inl (Exception ''Gemini transcription failed: Expecting value: line 1 column 1 (char 0)'')"
proof -
  have k: "OPENAI_API_KEY example_settings \<noteq> []" "GEMINI_API_KEY example_settings \<noteq> []"
    by (simp_all add: example_settings_def)
  have o: "openai_transcriptions answering_world ''a.wav'' ''en'' =
             Inr \<lparr>segments = None, response_text = ''hello there''\<rparr>"
    by (simp add: answering_world_def)
  have g: "gemini_audio answering_world ''a.wav'' (transcription_prompt ''en'') =
             Inr ''I cannot transcribe this.''"
    by (simp add: answering_world_def)
  have j: "json_loads answering_world ''I cannot transcribe this.'' =
             Inl (ValueError ''Expecting value: line 1 column 1 (char 0)'')"
    by (simp add: answering_world_def)
  have p: "py_or (Some ''openai'') (DEFAULT_LLM_PROVIDER example_settings) = ''openai''"
    "py_or (Some ''gemini'') (DEFAULT_LLM_PROVIDER example_settings) = ''gemini''"
    by (simp_all add: py_or_def)
  from transcription_fallback_openai_only [of example_settings "Some ''openai''" answering_world
      "''a.wav''" "''en''" "\<lparr>segments = None, response_text = ''hello there''\<rparr>"] k o p
  have r1: "fst (LLMClient_transcribe_audio answering_world example_settings ''a.wav'' ''en'' (Some ''openai'')) =
     Inr [\<lparr>start = 0, end = 0, text = ''hello there'', translated_text = None\<rparr>]"
    by simp
  from transcription_fallback_openai_only [of example_settings "Some ''gemini''" answering_world
      "''a.wav''" "''en''" _ "''I cannot transcribe this.''"] k g p j
  have r2: "fst (LLMClient_transcribe_audio answering_world example_settings ''a.wav'' ''en'' (Some ''gemini'')) =
     Inl (Exception ''Gemini transcription failed: Expecting value: line 1 column 1 (char 0)'')"
    by simp
  show ?thesis using r1 r2 by simp
qed

text \<open>
  Claim C9 as stated fails for Gemini: an answer that is not JSON makes the
  transcription raise instead of returning one segment with the answer's text.
\<close>

theorem transcription_fallback_counterexample:
  "fst (LLMClient_transcribe_audio answering_world example_settings ''a.wav'' ''en'' (Some ''gemini'')) =
     Inl (Exception ''Gemini transcription failed: Expecting value: line 1 column 1 (char 0)'') \<and>
   fst (LLMClient_transcribe_audio answering_world example_settings ''a.wav'' ''en'' (Some ''gemini'')) \<noteq>
     Inr [\<lparr>start = 0, end = 0, text = ''I cannot transcribe this.'', translated_text = None\<rparr>]"
  by (simp add: LLMClient_transcribe_audio_def transcribe_with_gemini_def answering_world_def
      example_settings_def py_or_def Let_def)

subsection \<open>Claim C10: unknown provider in the context builder\<close>

text \<open>
  Claim C10, amended. For a non-empty segment list whose concatenated text, stripped of
  surrounding whitespace, has at least 10 characters, and a non-empty provider name
  that is neither \<open>openai\<close> nor \<open>gemini\<close>, \<open>build_context\<close> raises nothing: the
  "Unknown provider" \<open>ValueError\<close> is caught by the handler of provider failures, the
  word-count fallback string is returned and no backend is invoked.
\<close>

theorem build_context_unknown_provider_fallback:
  assumes "segs \<noteq> []" and "10 \<le> length (strip (full_text segs))"
    and "p \<noteq> []" and "p \<noteq> ''openai''" and "p \<noteq> ''gemini''"
  shows "build_context W S segs lang (Some p) =
           (Inr (''Content in '' @ lang @ '' language. Length: approximately '' @
                 digits (length (split (full_text segs))) @ '' words.''), [])"
  using assms
  by (simp add: build_context_def generate_context_with_llm_def context_try_def
      fallback_context_def py_or_def Let_def)

theorem build_context_unknown_provider_fallback_witness:
  "10 \<le> length (strip (full_text [seg 0 3 ''Hello world, this is a test''])) \<and>
   build_context answering_world example_settings [seg 0 3 ''Hello world, this is a test''] ''en''
     (Some ''azure'') =
   (Inr ''Content in en language. Length: approximately 6 words.'', [])"
proof -
  have h: "10 \<le> length (strip (full_text [seg 0 3 ''Hello world, this is a test'']))"
    by (simp add: ex_strip)
  show ?thesis
    using h build_context_unknown_provider_fallback [OF _ h, of "''azure''" answering_world
        example_settings "''en''"]
    by (simp add: ex_split digits.simps digit_char_def)
qed

text \<open>
  Claim C10 as stated fails twice: the empty string is neither identifier, yet it
  selects the default provider and the summary of the provider is returned; and a text
  of 10 blanks has 10 characters, yet it is short after stripping and the short-text
  literal is returned.
\<close>

theorem build_context_unknown_provider_counterexample:
  "fst (build_context answering_world example_settings [seg 0 3 ''Hello world, this is a test'']
          ''en'' (Some [])) = Inr ''Hola'' \<and>
   length (full_text [seg 0 3 ''          '']) = 10 \<and>
   fst (build_context answering_world example_settings [seg 0 3 ''          ''] ''en''
          (Some ''azure'')) = Inr ''Short video content without specific context.''"
  by (simp add: build_context_def generate_context_with_llm_def context_try_def
      translate_with_gemini_def answering_world_def example_settings_def py_or_def
      strip_content_def ex_strip Let_def strip_def is_space_def)

end
